theory Spec2Isabelle
  imports Main "HOL-Library.Sublist"
begin

section \<open>JavaScript values\<close>

text \<open>
  The generator in \<^verbatim>\<open>codegen.ts\<close> receives the schema as plain JSON-like data and
  inspects it dynamically (\<^verbatim>\<open>typeof\<close>, truthiness, \<^verbatim>\<open>Object.keys\<close>).  The values it
  can see are modelled by \<open>jsval\<close>.  A number is given by the text that \<^verbatim>\<open>ToString\<close>
  prints for it: \<^verbatim>\<open>42\<close> is \<open>JNum ''42''\<close>, \<^verbatim>\<open>0.5\<close> is \<open>JNum ''0.5''\<close>, \<^verbatim>\<open>1e21\<close> is
  \<open>JNum ''1e+21''\<close>, both zeros are \<open>JNum ''0''\<close>, and \<^verbatim>\<open>NaN\<close> and the infinities are
  \<open>JNum ''NaN''\<close>, \<open>JNum ''Infinity''\<close> and \<open>JNum ''-Infinity''\<close>.  All that the generator
  does with a number (printing it, testing it for truthiness, comparing a length with
  \<^verbatim>\<open>1\<close>) is decided by this text.  An object is the list of its own enumerable members
  in enumeration order (which is what \<^verbatim>\<open>for ... in\<close>, \<^verbatim>\<open>Object.keys\<close>,
  \<^verbatim>\<open>Object.entries\<close> and \<^verbatim>\<open>JSON.stringify\<close> walk), and it is a plain data object: no
  member shadows a method of \<^verbatim>\<open>Object.prototype\<close>.  Strings are byte strings.
\<close>

datatype jsval =
    JUndefined
  | JNull
  | JBool bool
  | JNum string
  | JStr string
  | JArr "jsval list"
  | JObj "(string \<times> jsval) list"

type_synonym jsobj = "(string \<times> jsval) list"

text \<open>Every \<^verbatim>\<open>throw new Error(msg)\<close> of the source is \<open>Error msg\<close>; \<open>TypeError\<close> is
  what the runtime throws when a member of \<^verbatim>\<open>undefined\<close> or \<^verbatim>\<open>null\<close> is read or a
  non-function is called.\<close>

datatype error = Error string | TypeError

abbreviation sq :: string where
  "sq \<equiv> [CHR 0x27]"

abbreviation dq :: string where
  "dq \<equiv> [CHR 0x22]"

abbreviation nl :: string where
  "nl \<equiv> [CHR 0x0A]"

definition bind :: "error + 'a \<Rightarrow> ('a \<Rightarrow> error + 'b) \<Rightarrow> error + 'b" where
  "bind m f = (case m of Inl e \<Rightarrow> Inl e | Inr v \<Rightarrow> f v)"

text \<open>\<^verbatim>\<open>xs.map(f)\<close> where \<^verbatim>\<open>f\<close> may throw: elements are visited left to right and the
  first exception ends the traversal, so the outcome is that of the first call that
  throws, or the list of all results.\<close>

fun sequenceE :: "(error + 'a) list \<Rightarrow> error + 'a list" where
  "sequenceE [] = Inr []"
| "sequenceE (r # rs) =
     (case r of
        Inl e \<Rightarrow> Inl e
      | Inr y \<Rightarrow> (case sequenceE rs of Inl e \<Rightarrow> Inl e | Inr ys \<Rightarrow> Inr (y # ys)))"

definition mapE :: "('a \<Rightarrow> error + 'b) \<Rightarrow> 'a list \<Rightarrow> error + 'b list" where
  "mapE f xs = sequenceE (map f xs)"

text \<open>\<^verbatim>\<open>Array.prototype.join\<close> on an array of strings.\<close>

fun join :: "string list \<Rightarrow> string \<Rightarrow> string" where
  "join [] sep = []"
| "join [x] sep = x"
| "join (x # y # ys) sep = x @ sep @ join (y # ys) sep"

text \<open>Truthiness (\<^verbatim>\<open>ToBoolean\<close>): the falsy numbers are the zeros and \<^verbatim>\<open>NaN\<close>.\<close>

fun truthy :: "jsval \<Rightarrow> bool" where
  "truthy JUndefined = False"
| "truthy JNull = False"
| "truthy (JBool b) = b"
| "truthy (JNum t) = (t \<noteq> ''0'' \<and> t \<noteq> ''NaN'')"
| "truthy (JStr s) = (s \<noteq> [])"
| "truthy (JArr xs) = True"
| "truthy (JObj ps) = True"

text \<open>Decimal rendering of a natural number (a length, an index).\<close>

definition digit_char :: "nat \<Rightarrow> char" where
  "digit_char d = char_of (48 + d)"

fun show_nat :: "nat \<Rightarrow> string" where
  "show_nat n = (if n < 10 then [digit_char n] else show_nat (n div 10) @ [digit_char (n mod 10)])"

declare show_nat.simps [simp del]

definition show_bool :: "bool \<Rightarrow> string" where
  "show_bool b = (if b then ''true'' else ''false'')"

text \<open>\<^verbatim>\<open>ToString\<close>, as applied by a template literal \<^verbatim>\<open>`${v}`\<close>.  An array is its
  elements joined by commas, \<^verbatim>\<open>null\<close> and \<^verbatim>\<open>undefined\<close> elements being empty.\<close>

fun toString :: "jsval \<Rightarrow> string" where
  "toString JUndefined = ''undefined''"
| "toString JNull = ''null''"
| "toString (JBool b) = show_bool b"
| "toString (JNum t) = t"
| "toString (JStr s) = s"
| "toString (JArr xs) =
     join (map (\<lambda>x. if x = JUndefined \<or> x = JNull then [] else toString x) xs) '',''"
| "toString (JObj ps) = ''[object Object]''"

text \<open>Member reads \<^verbatim>\<open>o.k\<close> on an object (a missing member is \<^verbatim>\<open>undefined\<close>).\<close>

definition get_prop :: "jsobj \<Rightarrow> string \<Rightarrow> jsval" where
  "get_prop ps k = (case map_of ps k of None \<Rightarrow> JUndefined | Some v \<Rightarrow> v)"

text \<open>
  The order in which an object enumerates its members is not always the order in which
  they were declared (inserted): the keys that are array indices (\<^verbatim>\<open>"0"\<close>, \<^verbatim>\<open>"1"\<close>, ...
  up to \<^verbatim>\<open>"4294967294"\<close>, in canonical decimal form) come first, in ascending numeric
  order, and all other keys follow in the order of their declaration.  For members
  declared in the order \<open>decl\<close> (with distinct keys), \<open>enumeration_order decl\<close> is the
  list that the object is for \<^verbatim>\<open>for ... in\<close> and \<^verbatim>\<open>Object.entries\<close>.
\<close>

definition is_digit :: "char \<Rightarrow> bool" where
  "is_digit c = (48 \<le> (of_char c :: int) \<and> (of_char c :: int) \<le> 57)"

definition decimal_value :: "string \<Rightarrow> int" where
  "decimal_value k = foldl (\<lambda>n c. 10 * n + (of_char c - 48)) 0 k"

definition is_array_index :: "string \<Rightarrow> bool" where
  "is_array_index k =
     (case k of
        [] \<Rightarrow> False
      | c # cs \<Rightarrow> list_all is_digit k \<and> (c = CHR ''0'' \<longrightarrow> cs = [])
                  \<and> decimal_value k < 4294967295)"

definition enumeration_order :: "(string \<times> 'a) list \<Rightarrow> (string \<times> 'a) list" where
  "enumeration_order decl =
     sort_key (\<lambda>p. decimal_value (fst p)) (filter (\<lambda>p. is_array_index (fst p)) decl)
     @ filter (\<lambda>p. \<not> is_array_index (fst p)) decl"

text \<open>\<^verbatim>\<open>v.length\<close> and \<^verbatim>\<open>v[i]\<close> for a value \<open>v\<close> that is not necessarily an array.\<close>

fun js_length :: "jsval \<Rightarrow> error + jsval" where
  "js_length JUndefined = Inl TypeError"
| "js_length JNull = Inl TypeError"
| "js_length (JStr s) = Inr (JNum (show_nat (length s)))"
| "js_length (JArr xs) = Inr (JNum (show_nat (length xs)))"
| "js_length (JObj ps) = Inr (get_prop ps ''length'')"
| "js_length v = Inr JUndefined"

fun js_index :: "jsval \<Rightarrow> nat \<Rightarrow> error + jsval" where
  "js_index JUndefined i = Inl TypeError"
| "js_index JNull i = Inl TypeError"
| "js_index (JStr s) i = Inr (if i < length s then JStr [s ! i] else JUndefined)"
| "js_index (JArr xs) i = Inr (if i < length xs then xs ! i else JUndefined)"
| "js_index (JObj ps) i = Inr (get_prop ps (show_nat i))"
| "js_index v i = Inr JUndefined"

subsection \<open>\<^verbatim>\<open>JSON.stringify\<close>\<close>

definition hex_digit :: "nat \<Rightarrow> char" where
  "hex_digit d = (if d < 10 then char_of (48 + d) else char_of (87 + d))"

definition quote_char :: "char \<Rightarrow> string" where
  "quote_char c =
     (if c = CHR 0x22 then [CHR 0x5C, CHR 0x22]
      else if c = CHR 0x5C then [CHR 0x5C, CHR 0x5C]
      else if c = CHR 0x08 then [CHR 0x5C, CHR ''b'']
      else if c = CHR 0x09 then [CHR 0x5C, CHR ''t'']
      else if c = CHR 0x0A then [CHR 0x5C, CHR ''n'']
      else if c = CHR 0x0C then [CHR 0x5C, CHR ''f'']
      else if c = CHR 0x0D then [CHR 0x5C, CHR ''r'']
      else if of_char c < (32::nat)
        then [CHR 0x5C, CHR ''u'', CHR ''0'', CHR ''0'',
              hex_digit (of_char c div 16), hex_digit (of_char c mod 16)]
      else [c])"

definition quoteJSONString :: "string \<Rightarrow> string" where
  "quoteJSONString s = dq @ concat (map quote_char s) @ dq"

text \<open>\<^verbatim>\<open>SerializeJSONProperty\<close> with the gap and the current indentation; \<open>None\<close> is the
  \<^verbatim>\<open>undefined\<close> result, which an array prints as \<^verbatim>\<open>null\<close> and an object leaves out.\<close>

fun serializeJSON :: "string \<Rightarrow> string \<Rightarrow> jsval \<Rightarrow> string option" where
  "serializeJSON gap ind JUndefined = None"
| "serializeJSON gap ind JNull = Some ''null''"
| "serializeJSON gap ind (JBool b) = Some (show_bool b)"
| "serializeJSON gap ind (JNum t) =
     Some (if t = ''NaN'' \<or> t = ''Infinity'' \<or> t = ''-Infinity'' then ''null'' else t)"
| "serializeJSON gap ind (JStr s) = Some (quoteJSONString s)"
| "serializeJSON gap ind (JArr xs) =
     (let partial = map (\<lambda>x. case serializeJSON gap (ind @ gap) x of
                                 None \<Rightarrow> ''null'' | Some t \<Rightarrow> t) xs
      in Some (if partial = [] then ''[]''
               else if gap = [] then ''['' @ join partial '','' @ '']''
               else ''['' @ nl @ ind @ gap @ join partial ('','' @ nl @ ind @ gap)
                    @ nl @ ind @ '']''))"
| "serializeJSON gap ind (JObj ps) =
     (let partial = concat (map (\<lambda>p. case serializeJSON gap (ind @ gap) (snd p) of
                                 None \<Rightarrow> []
                               | Some t \<Rightarrow> [quoteJSONString (fst p) @ '':''
                                             @ (if gap = [] then [] else '' '') @ t]) ps)
      in Some (if partial = [] then ''{}''
               else if gap = [] then ''{'' @ join partial '','' @ ''}''
               else ''{'' @ nl @ ind @ gap @ join partial ('','' @ nl @ ind @ gap)
                    @ nl @ ind @ ''}''))"

text \<open>\<^verbatim>\<open>JSON.stringify(v)\<close> and \<^verbatim>\<open>JSON.stringify(v, null, 2)\<close> for a value that is not
  \<^verbatim>\<open>undefined\<close> (both call sites test the value for truthiness first).\<close>

definition json_stringify :: "jsval \<Rightarrow> string" where
  "json_stringify v = (case serializeJSON [] [] v of None \<Rightarrow> ''undefined'' | Some t \<Rightarrow> t)"

definition json_stringify2 :: "jsval \<Rightarrow> string" where
  "json_stringify2 v = (case serializeJSON ''  '' [] v of None \<Rightarrow> ''undefined'' | Some t \<Rightarrow> t)"

section \<open>The schema\<close>

text \<open>\<^verbatim>\<open>UserTypeOptions\<close>: \<^verbatim>\<open>{ nullable?: boolean, default?: ... }\<close>.  A missing
  \<^verbatim>\<open>nullable\<close> is \<open>None\<close>, a missing \<^verbatim>\<open>default\<close> is \<open>JUndefined\<close>.\<close>

record user_type_options =
  nullable :: "bool option"
  defaultValue :: jsval

text \<open>
  \<^verbatim>\<open>AttributeDefinition\<close>, an object tagged by its \<^verbatim>\<open>type\<close> member:
  \<^item> \<open>ValueAttribute t options\<close> is \<^verbatim>\<open>{ type: t, options }\<close>, for any tag \<open>t\<close>;
  \<^item> \<open>SetAttribute items options\<close> is \<^verbatim>\<open>{ type: 'set', items, options }\<close>;
  \<^item> \<open>RecordAttribute properties optional\<close> is
    \<^verbatim>\<open>{ type: 'record', properties, optional? }\<close>;
  \<^item> \<open>QueryAttribute query cardinality\<close> is \<^verbatim>\<open>{ type: 'query', query, cardinality }\<close>,
    the query being an object with member \<^verbatim>\<open>collectionName\<close> and any others.
\<close>

datatype attribute =
    ValueAttribute string user_type_options
  | SetAttribute attribute user_type_options
  | RecordAttribute "(string \<times> attribute) list" "string list option"
  | QueryAttribute jsobj string

fun attribute_type :: "attribute \<Rightarrow> string" where
  "attribute_type (ValueAttribute t options) = t"
| "attribute_type (SetAttribute items options) = ''set''"
| "attribute_type (RecordAttribute props opt) = ''record''"
| "attribute_type (QueryAttribute query cardinality) = ''query''"

text \<open>\<^verbatim>\<open>CollectionDefinition\<close>: \<^verbatim>\<open>{ schema: { properties, optional? }, rules? }\<close>.\<close>

record collection_schema =
  properties :: "(string \<times> attribute) list"
  optional :: "string list option"

record collection_definition =
  schema :: collection_schema
  rules :: jsval

type_synonym collections_definition = "(string \<times> collection_definition) list"

text \<open>The argument of \<^verbatim>\<open>schemaFileContentFromJSON\<close>: \<^verbatim>\<open>undefined\<close>, or an object whose
  \<^verbatim>\<open>collections\<close> member may be missing.\<close>

record schema_json =
  version :: int
  collections :: "collections_definition option"

section \<open>The value encoder\<close>

fun valueToJS :: "jsval \<Rightarrow> error + string" where
  "valueToJS (JStr s) = Inr (dq @ s @ dq)"
| "valueToJS (JNum t) = Inr t"
| "valueToJS (JBool b) = Inr (show_bool b)"
| "valueToJS JNull = Inr ''null''"
| "valueToJS v = Inl (Error (''Invalid value: '' @ toString v))"

text \<open>\<^verbatim>\<open>typeof v === 'object' && v !== null\<close>\<close>

fun is_object :: "jsval \<Rightarrow> bool" where
  "is_object (JArr xs) = True"
| "is_object (JObj ps) = True"
| "is_object v = False"

text \<open>\<^verbatim>\<open>const { func, args } = defaultValue\<close>: an array has neither member.\<close>

fun member_of :: "jsval \<Rightarrow> string \<Rightarrow> jsval" where
  "member_of (JObj ps) k = get_prop ps k"
| "member_of v k = JUndefined"

text \<open>\<^verbatim>\<open>args ? args.map(valueToJS).join(', ') : ''\<close>; a truthy \<^verbatim>\<open>args\<close> that is no array
  has no callable \<^verbatim>\<open>map\<close>.\<close>

definition parsedArgs :: "jsval \<Rightarrow> error + string" where
  "parsedArgs args =
     (if truthy args
      then (case args of
              JArr xs \<Rightarrow> bind (mapE valueToJS xs) (\<lambda>ts. Inr (join ts '', ''))
            | _ \<Rightarrow> Inl TypeError)
      else Inr [])"

definition defaultValueToString :: "jsval \<Rightarrow> error + string" where
  "defaultValueToString dv =
     (if is_object dv
      then (let func = member_of dv ''func''; args = member_of dv ''args''
            in if \<not> List.member [JStr ''now'', JStr ''uuid''] func
               then Inl (Error ''Invalid default function name'')
               else bind (parsedArgs args)
                      (\<lambda>pa. Inr (''S.Default.'' @ toString func @ ''('' @ pa @ '')'')))
      else valueToJS dv)"

definition valueOptionsToString :: "user_type_options \<Rightarrow> error + string" where
  "valueOptionsToString options =
     (let result0 = (case nullable options of
                       None \<Rightarrow> []
                     | Some b \<Rightarrow> [''nullable: '' @ show_bool b])
      in bind (if defaultValue options \<noteq> JUndefined
               then bind (defaultValueToString (defaultValue options))
                      (\<lambda>d. Inr (result0 @ [''default: '' @ d]))
               else Inr result0)
           (\<lambda>result. Inr (if result \<noteq> [] then ''{'' @ join result '', '' @ ''}'' else [])))"

section \<open>The attribute encoder\<close>

definition wrapOptional :: "string \<Rightarrow> bool \<Rightarrow> string" where
  "wrapOptional type isOptional = (if isOptional then ''S.Optional('' @ type @ '')'' else type)"

definition subQueryToString :: "jsobj \<Rightarrow> string" where
  "subQueryToString subquery =
     (let whereV = get_prop subquery ''where'';
          limit = get_prop subquery ''limit'';
          order = get_prop subquery ''order'';
          whereString = (if truthy whereV then ''where: '' @ json_stringify whereV else []);
          limitString = (if truthy limit then ''limit: '' @ toString limit else []);
          orderString = (if truthy order then ''order: '' @ json_stringify order else []);
          cleanedString = join (filter (\<lambda>str. str \<noteq> []) [whereString, limitString, orderString]) '', ''
      in ''{'' @ cleanedString @ ''}'')"

text \<open>\<^verbatim>\<open>const { collectionName, ...queryParams } = query\<close>\<close>

definition queryParams :: "jsobj \<Rightarrow> jsobj" where
  "queryParams query = filter (\<lambda>p. fst p \<noteq> ''collectionName'') query"

text \<open>The truth value of the \<^verbatim>\<open>&&\<close> chain \<^verbatim>\<open>isRelationById\<close>, evaluated left to right
  with short circuit; reading \<^verbatim>\<open>query.where[0][0]\<close> throws when \<^verbatim>\<open>query.where[0]\<close>
  is \<^verbatim>\<open>null\<close> or \<^verbatim>\<open>undefined\<close>.\<close>

definition isRelationById :: "jsobj \<Rightarrow> error + bool" where
  "isRelationById query =
     (let whereV = get_prop query ''where'' in
      if \<not> truthy (get_prop query ''collectionName'') then Inr False
      else if \<not> truthy whereV then Inr False
      else bind (js_length whereV) (\<lambda>len.
        if len \<noteq> JNum ''1'' then Inr False
        else bind (js_index whereV 0) (\<lambda>w0.
          bind (js_index w0 0) (\<lambda>field.
            if field \<noteq> JStr ''id'' then Inr False
            else bind (js_index w0 1) (\<lambda>op.
              if op \<noteq> JStr ''='' then Inr False
              else Inr (length (map fst (queryParams query)) = 1))))))"

text \<open>The \<^verbatim>\<open>case 'query'\<close> branch of \<^verbatim>\<open>schemaItemToString\<close>.\<close>

definition queryToString :: "jsobj \<Rightarrow> string \<Rightarrow> error + string" where
  "queryToString query cardinality =
     (let collectionName = get_prop query ''collectionName'' in
      if cardinality = ''one''
      then bind (isRelationById query) (\<lambda>byId.
             if byId
             then bind (js_index (get_prop (queryParams query) ''where'') 0) (\<lambda>w0.
                    bind (js_index w0 2) (\<lambda>v.
                      Inr (''S.RelationById('' @ sq @ toString collectionName @ sq @ '', ''
                           @ sq @ toString v @ sq @ '')'')))
             else Inr (''S.RelationOne('' @ sq @ toString collectionName @ sq @ '',''
                       @ subQueryToString (queryParams query) @ '')''))
      else Inr (''S.RelationMany('' @ sq @ toString collectionName @ sq @ '',''
                @ subQueryToString (queryParams query) @ '')''))"

text \<open>\<^verbatim>\<open>optional?.includes(key) ?? false\<close>\<close>

definition includes_key :: "string list option \<Rightarrow> string \<Rightarrow> bool" where
  "includes_key keys key = (case keys of None \<Rightarrow> False | Some ks \<Rightarrow> List.member ks key)"

text \<open>
  \<^verbatim>\<open>schemaItemToString({ attribute, optional })\<close>.  The argument \<open>optionalFlag\<close> is \<open>None\<close>
  where the caller leaves the member \<^verbatim>\<open>optional\<close> out (the items of a set).  The \<^verbatim>\<open>switch\<close> on the
  type tag computes \<^verbatim>\<open>result\<close>; a tag \<^verbatim>\<open>'set'\<close>, \<^verbatim>\<open>'record'\<close> or \<^verbatim>\<open>'query'\<close> on an
  object without the members of that variant fails on the first read of a member of
  \<^verbatim>\<open>undefined\<close>.  Then every type but \<^verbatim>\<open>'query'\<close> goes through \<^verbatim>\<open>wrapOptional\<close>.
\<close>

fun schemaItemToString :: "attribute \<Rightarrow> bool option \<Rightarrow> error + string" where
  "schemaItemToString attribute optionalFlag =
     bind
       (case attribute of
          ValueAttribute t options \<Rightarrow>
            (if t = ''string''
               then bind (valueOptionsToString options) (\<lambda>opts. Inr (''S.String('' @ opts @ '')''))
             else if t = ''boolean''
               then bind (valueOptionsToString options) (\<lambda>opts. Inr (''S.Boolean('' @ opts @ '')''))
             else if t = ''number''
               then bind (valueOptionsToString options) (\<lambda>opts. Inr (''S.Number('' @ opts @ '')''))
             else if t = ''date''
               then bind (valueOptionsToString options) (\<lambda>opts. Inr (''S.Date('' @ opts @ '')''))
             else if t = ''set'' \<or> t = ''record'' \<or> t = ''query''
               then Inl TypeError
             else Inl (Error (''Invalid type: '' @ t)))
        | SetAttribute items options \<Rightarrow>
            bind (schemaItemToString items None) (\<lambda>item.
              bind (valueOptionsToString options) (\<lambda>opts.
                Inr (''S.Set('' @ item @ '','' @ opts @ '')'')))
        | RecordAttribute props opt \<Rightarrow>
            bind (sequenceE (map (\<lambda>entry.
                    bind (schemaItemToString (snd entry) (Some (includes_key opt (fst entry))))
                      (\<lambda>s. Inr (sq @ fst entry @ sq @ '': '' @ s))) props))
              (\<lambda>entries. Inr (''S.Record({'' @ join entries ('','' @ nl) @ ''})''))
        | QueryAttribute query cardinality \<Rightarrow> queryToString query cardinality)
       (\<lambda>result.
          Inr (if \<not> List.member [''query''] (attribute_type attribute)
               then wrapOptional result (case optionalFlag of None \<Rightarrow> False | Some b \<Rightarrow> b)
               else result))"

declare schemaItemToString.simps [simp del]

section \<open>The collection and module assemblers\<close>

definition indentation :: string where
  "indentation = ''  ''"

fun generateAttributeSchema :: "string list \<Rightarrow> attribute \<Rightarrow> bool \<Rightarrow> string \<Rightarrow> error + string" where
  "generateAttributeSchema [] attribute isOptional indent =
     schemaItemToString attribute (Some isOptional)"
| "generateAttributeSchema [p] attribute isOptional indent =
     bind (schemaItemToString attribute (Some isOptional))
       (\<lambda>s. Inr (indent @ sq @ p @ sq @ '': '' @ s @ '','' @ nl))"
| "generateAttributeSchema (head # tail) attribute isOptional indent =
     bind (generateAttributeSchema tail attribute isOptional (indent @ indentation))
       (\<lambda>inner. Inr (indent @ sq @ head @ sq @ '': {'' @ nl @ inner @ indent @ ''},'' @ nl))"

text \<open>The \<^verbatim>\<open>for (const path in schema.properties)\<close> loop of
  \<^verbatim>\<open>generateAttributesSection\<close>, with \<^verbatim>\<open>result\<close> as accumulator.  Each entry of the
  list is a key of the object with the value stored under it.\<close>

fun attributesLoop ::
  "(string \<times> attribute) list \<Rightarrow> string list option \<Rightarrow> string \<Rightarrow> string \<Rightarrow> error + string" where
  "attributesLoop [] opt indent result = Inr result"
| "attributesLoop (entry # rest) opt indent result =
     bind (generateAttributeSchema [fst entry] (snd entry) (includes_key opt (fst entry))
             (indent @ indentation))
       (\<lambda>s. attributesLoop rest opt indent (result @ s))"

definition generateAttributesSection :: "collection_schema \<Rightarrow> string \<Rightarrow> error + string" where
  "generateAttributesSection sch indent =
     bind (attributesLoop (properties sch) (optional sch) indent
             ([] @ indent @ ''schema: S.Schema({'' @ nl))
       (\<lambda>result. Inr (result @ indent @ ''}),'' @ nl))"

text \<open>\<^verbatim>\<open>s.split(sep)\<close> for a one-character separator.\<close>

fun split :: "string \<Rightarrow> char \<Rightarrow> string list" where
  "split [] c = [[]]"
| "split (x # xs) c =
     (if x = c then [] # split xs c
      else (case split xs c of [] \<Rightarrow> [[x]] | h # t \<Rightarrow> (x # h) # t))"

definition generateRulesSection :: "jsval \<Rightarrow> string \<Rightarrow> string" where
  "generateRulesSection rls indent =
     (if truthy rls
      then [] @ indent @ ''rules: '' @ join (split (json_stringify2 rls) (CHR 0x0A)) (nl @ indent)
      else [])"

text \<open>\<^verbatim>\<open>indent.slice(0, -2)\<close>\<close>

definition slice_off2 :: "string \<Rightarrow> string" where
  "slice_off2 s = take (length s - 2) s"

text \<open>The \<^verbatim>\<open>for (let collectionKey in collectionsDefinition)\<close> loop of
  \<^verbatim>\<open>collectionsDefinitionToFileContent\<close>.\<close>

fun collectionsLoop :: "collections_definition \<Rightarrow> string \<Rightarrow> string \<Rightarrow> error + string" where
  "collectionsLoop [] indent result = Inr result"
| "collectionsLoop (entry # rest) indent result =
     bind (generateAttributesSection (schema (snd entry)) (indent @ indentation))
       (\<lambda>attrs. collectionsLoop rest indent
          (result @ indent @ (sq @ fst entry @ sq @ '': {'' @ nl) @ attrs
           @ generateRulesSection (rules (snd entry)) (indent @ indentation)
           @ (indent @ ''},'' @ nl)))"

definition collectionsDefinitionToFileContent :: "collections_definition \<Rightarrow> string \<Rightarrow> error + string" where
  "collectionsDefinitionToFileContent collectionsDefinition indent =
     bind (collectionsLoop collectionsDefinition indent (''{'' @ nl))
       (\<lambda>result. Inr (result @ slice_off2 indent @ ''}''))"

text \<open>\<^verbatim>\<open>String.prototype.trim\<close> on a byte string.\<close>

definition is_space :: "char \<Rightarrow> bool" where
  "is_space c = List.member [CHR 0x09, CHR 0x0A, CHR 0x0B, CHR 0x0C, CHR 0x0D, CHR 0x20] c"

definition trim :: "string \<Rightarrow> string" where
  "trim s = rev (dropWhile is_space (rev (dropWhile is_space s)))"

definition schemaFileContentFromJSON :: "schema_json option \<Rightarrow> error + string" where
  "schemaFileContentFromJSON schemaJSON =
     bind (collectionsDefinitionToFileContent
             (case schemaJSON of
                None \<Rightarrow> []
              | Some j \<Rightarrow> (case collections j of None \<Rightarrow> [] | Some cs \<Rightarrow> cs))
             indentation)
       (\<lambda>schemaContent.
          Inr (trim (nl @ ''/**'' @ nl
                     @ '' * This file is auto-generated by the Triplit CLI.'' @ nl
                     @ '' */ '' @ nl
                     @ nl
                     @ ''import { Schema as S } from '' @ sq @ ''@triplit/db'' @ sq @ '';'' @ nl
                     @ ''export const schema = '' @ schemaContent @ '';'' @ nl
                     @ ''      '')
               @ nl))"

text \<open>\<^verbatim>\<open>schemaFileContentFromSchema\<close> passes its argument through \<^verbatim>\<open>schemaToJSON\<close>, which
  is imported from \<^verbatim>\<open>@triplit/db\<close> and taken here as a parameter.\<close>

definition schemaFileContentFromSchema ::
  "('s option \<Rightarrow> schema_json option) \<Rightarrow> 's option \<Rightarrow> error + string" where
  "schemaFileContentFromSchema schemaToJSON sch = schemaFileContentFromJSON (schemaToJSON sch)"

section \<open>Notions used in the statements\<close>

text \<open>The values the spec calls literals: string, number, boolean and \<^verbatim>\<open>null\<close>.\<close>

definition is_literal :: "jsval \<Rightarrow> bool" where
  "is_literal v =
     (case v of JStr s \<Rightarrow> True | JNum n \<Rightarrow> True | JBool b \<Rightarrow> True | JNull \<Rightarrow> True | _ \<Rightarrow> False)"

text \<open>A where clause \<^verbatim>\<open>[field, operator, value]\<close>.\<close>

definition is_triple :: "jsval \<Rightarrow> bool" where
  "is_triple cl = (case cl of JArr [f, op, v] \<Rightarrow> True | _ \<Rightarrow> False)"

text \<open>The text of the generated file around the schema literal.\<close>

definition file_text :: "string \<Rightarrow> string" where
  "file_text schemaContent =
     ''/**'' @ nl
     @ '' * This file is auto-generated by the Triplit CLI.'' @ nl
     @ '' */ '' @ nl
     @ nl
     @ ''import { Schema as S } from '' @ sq @ ''@triplit/db'' @ sq @ '';'' @ nl
     @ ''export const schema = '' @ schemaContent @ '';'' @ nl"

section \<open>Auxiliary facts\<close>

lemma bind_Inl [simp]: "bind (Inl e) f = Inl e"
  by (simp add: bind_def)

lemma bind_Inr [simp]: "bind (Inr v) f = f v"
  by (simp add: bind_def)

lemma bind_eq_Inr: "bind m f = Inr y \<longleftrightarrow> (\<exists>v. m = Inr v \<and> f v = Inr y)"
  by (cases m) simp_all

lemma bind_eq_Inl: "bind m f = Inl e \<longleftrightarrow> m = Inl e \<or> (\<exists>v. m = Inr v \<and> f v = Inl e)"
  by (cases m) simp_all

lemma mapE_Nil [simp]: "mapE f [] = Inr []"
  by (simp add: mapE_def)

lemma mapE_Cons [simp]:
  "mapE f (x # xs) =
     (case f x of
        Inl e \<Rightarrow> Inl e
      | Inr y \<Rightarrow> (case mapE f xs of Inl e \<Rightarrow> Inl e | Inr ys \<Rightarrow> Inr (y # ys)))"
  unfolding mapE_def by simp

lemma mapE_eq_Inr: "mapE f xs = Inr ys \<longleftrightarrow> list_all2 (\<lambda>x y. f x = Inr y) xs ys"
proof (induction xs arbitrary: ys)
  case Nil
  then show ?case by auto
next
  case (Cons x xs)
  show ?case
    by (cases ys) (auto simp: Cons.IH [symmetric] split: sum.splits)
qed

lemma mapE_first_error:
  "list_all2 (\<lambda>x y. f x = Inr y) xs ys \<Longrightarrow> f x = Inl e \<Longrightarrow> mapE f (xs @ x # zs) = Inl e"
  by (induction xs ys rule: list_all2_induct) simp_all

lemma mapE_some_error:
  "x \<in> set xs \<Longrightarrow> f x = Inl e \<Longrightarrow> \<exists>e'. mapE f xs = Inl e'"
  by (induction xs) (auto split: sum.splits)

lemma show_nat_not_Nil: "show_nat n \<noteq> []"
  by (subst show_nat.simps) simp

lemma show_nat_eq_one: "show_nat n = ''1'' \<longleftrightarrow> n = 1"
proof (cases "n < 10")
  case True
  then have "show_nat n = [digit_char n]"
    by (subst show_nat.simps) simp
  moreover have "digit_char n = CHR ''1'' \<longleftrightarrow> n = 1"
    using True by (auto simp: digit_char_def char_of_eq_iff take_bit_eq_mod)
  ultimately show ?thesis by simp
next
  case False
  then have "length (show_nat n) \<ge> 2"
    using show_nat_not_Nil [of "n div 10"]
    by (subst show_nat.simps) (cases "show_nat (n div 10)"; simp)
  with False show ?thesis by auto
qed

section \<open>The value encoder: literals, defaults, options\<close>

text \<open>
  Claim C6.  \<^verbatim>\<open>valueToJS\<close> returns a text for every string, number, boolean and
  \<^verbatim>\<open>null\<close>, and for every value of another runtime type (\<^verbatim>\<open>undefined\<close>, an array, an
  object) it throws the error \<^verbatim>\<open>Invalid value: ...\<close>.
\<close>

theorem valueToJS_literals_only:
  "(is_literal v \<longrightarrow> (\<exists>t. valueToJS v = Inr t))
   \<and> (\<not> is_literal v \<longrightarrow> valueToJS v = Inl (Error (''Invalid value: '' @ toString v)))"
  by (cases v) (simp_all add: is_literal_def)

theorem valueToJS_literals_only_witness:
  "is_literal (JNum ''42'') \<and> (\<exists>t. valueToJS (JNum ''42'') = Inr t)
   \<and> \<not> is_literal (JArr [JNum ''42''])
   \<and> valueToJS (JArr [JNum ''42'']) = Inl (Error ''Invalid value: 42'')"
  using valueToJS_literals_only [of "JNum ''42''"] valueToJS_literals_only [of "JArr [JNum ''42'']"]
  by (simp add: is_literal_def)

lemma mapE_valueToJS_literals:
  "list_all is_literal args \<Longrightarrow> \<exists>ts. mapE valueToJS args = Inr ts"
proof (induction args)
  case Nil
  then show ?case by simp
next
  case (Cons a args)
  then obtain ts where "mapE valueToJS args = Inr ts" by auto
  moreover from Cons.prems obtain t where "valueToJS a = Inr t"
    by (cases a) (simp_all add: is_literal_def)
  ultimately show ?case by simp
qed

text \<open>
  Claim C5.  For a default value that is a function call \<^verbatim>\<open>{ func: name, args }\<close> whose
  arguments are literals, \<^verbatim>\<open>defaultValueToString\<close> succeeds exactly when the name is
  \<^verbatim>\<open>now\<close> or \<^verbatim>\<open>uuid\<close>; the text is then the call \<^verbatim>\<open>S.Default.name(...)\<close> of the
  arguments, each encoded by \<^verbatim>\<open>valueToJS\<close> and joined by \<^verbatim>\<open>", "\<close> (nothing between the
  parentheses for an empty list).  Any other name throws
  \<^verbatim>\<open>Invalid default function name\<close>.
\<close>

theorem defaultValueToString_function_call:
  assumes "get_prop ps ''func'' = JStr name"
    and "get_prop ps ''args'' = JArr args"
    and "list_all is_literal args"
  shows "\<exists>ts. list_all2 (\<lambda>a t. valueToJS a = Inr t) args ts
           \<and> defaultValueToString (JObj ps) =
               (if name = ''now'' \<or> name = ''uuid''
                then Inr (''S.Default.'' @ name @ ''('' @ join ts '', '' @ '')'')
                else Inl (Error ''Invalid default function name''))"
proof -
  from assms(3) obtain ts where ts: "mapE valueToJS args = Inr ts"
    using mapE_valueToJS_literals by blast
  then have "list_all2 (\<lambda>a t. valueToJS a = Inr t) args ts"
    by (simp add: mapE_eq_Inr)
  moreover have "defaultValueToString (JObj ps) =
               (if name = ''now'' \<or> name = ''uuid''
                then Inr (''S.Default.'' @ name @ ''('' @ join ts '', '' @ '')'')
                else Inl (Error ''Invalid default function name''))"
    using assms(1,2) ts by (auto simp: defaultValueToString_def parsedArgs_def)
  ultimately show ?thesis by blast
qed

theorem defaultValueToString_function_call_witness:
  "defaultValueToString (JObj [(''func'', JStr ''uuid''), (''args'', JArr [])])
     = Inr ''S.Default.uuid()''
   \<and> defaultValueToString (JObj [(''func'', JStr ''now''), (''args'', JArr [])])
     = Inr ''S.Default.now()''
   \<and> defaultValueToString (JObj [(''func'', JStr ''sum''), (''args'', JArr [])])
     = Inl (Error ''Invalid default function name'')
   \<and> defaultValueToString (JObj [(''func'', JStr ''now''), (''args'', JArr [JNum ''42'', JBool True])])
     = Inr ''S.Default.now(42, true)''"
  using defaultValueToString_function_call
          [of "[(''func'', JStr ''uuid''), (''args'', JArr [])]" "''uuid''" "[]"]
        defaultValueToString_function_call
          [of "[(''func'', JStr ''now''), (''args'', JArr [])]" "''now''" "[]"]
        defaultValueToString_function_call
          [of "[(''func'', JStr ''sum''), (''args'', JArr [])]" "''sum''" "[]"]
        defaultValueToString_function_call
          [of "[(''func'', JStr ''now''), (''args'', JArr [JNum ''42'', JBool True])]" "''now''"
              "[JNum ''42'', JBool True]"]
  by (simp add: get_prop_def is_literal_def list_all2_Cons1 show_bool_def)

text \<open>
  Claim C7.  \<^verbatim>\<open>valueOptionsToString\<close> renders \<^verbatim>\<open>nullable\<close> exactly when it is set (also
  when it is \<^verbatim>\<open>false\<close>) and \<^verbatim>\<open>default\<close> exactly when it is present, through
  \<^verbatim>\<open>defaultValueToString\<close>; the entries are joined by \<^verbatim>\<open>", "\<close> inside braces, and with
  neither entry the result is the empty string.  An error of the default is passed on.
\<close>

theorem valueOptionsToString_entries:
  "(nullable opts = None \<and> defaultValue opts = JUndefined
      \<longrightarrow> valueOptionsToString opts = Inr [])
   \<and> (nullable opts = Some b \<and> defaultValue opts = JUndefined
      \<longrightarrow> valueOptionsToString opts = Inr (''{nullable: '' @ show_bool b @ ''}''))
   \<and> (nullable opts = None \<and> defaultValue opts \<noteq> JUndefined
        \<and> defaultValueToString (defaultValue opts) = Inr d
      \<longrightarrow> valueOptionsToString opts = Inr (''{default: '' @ d @ ''}''))
   \<and> (nullable opts = Some b \<and> defaultValue opts \<noteq> JUndefined
        \<and> defaultValueToString (defaultValue opts) = Inr d
      \<longrightarrow> valueOptionsToString opts
            = Inr (''{nullable: '' @ show_bool b @ '', default: '' @ d @ ''}''))
   \<and> (defaultValue opts \<noteq> JUndefined \<and> defaultValueToString (defaultValue opts) = Inl e
      \<longrightarrow> valueOptionsToString opts = Inl e)"
  by (simp add: valueOptionsToString_def split: option.split)

theorem valueOptionsToString_entries_witness:
  "valueOptionsToString \<lparr>nullable = None, defaultValue = JUndefined\<rparr> = Inr []
   \<and> valueOptionsToString \<lparr>nullable = Some False, defaultValue = JUndefined\<rparr>
       = Inr ''{nullable: false}''
   \<and> valueOptionsToString \<lparr>nullable = None, defaultValue = JNull\<rparr> = Inr ''{default: null}''
   \<and> valueOptionsToString \<lparr>nullable = Some True, defaultValue = JNum ''42''\<rparr>
       = Inr ''{nullable: true, default: 42}''
   \<and> valueOptionsToString \<lparr>nullable = Some True, defaultValue = JArr []\<rparr>
       = Inl (Error ''Invalid default function name'')"
  using valueOptionsToString_entries
          [of "\<lparr>nullable = None, defaultValue = JUndefined\<rparr>" False "[]" TypeError]
        valueOptionsToString_entries
          [of "\<lparr>nullable = Some False, defaultValue = JUndefined\<rparr>" False "[]" TypeError]
        valueOptionsToString_entries
          [of "\<lparr>nullable = None, defaultValue = JNull\<rparr>" False "''null''" TypeError]
        valueOptionsToString_entries
          [of "\<lparr>nullable = Some True, defaultValue = JNum ''42''\<rparr>" True "''42''" TypeError]
        valueOptionsToString_entries
          [of "\<lparr>nullable = Some True, defaultValue = JArr []\<rparr>" True "[]"
              "Error ''Invalid default function name''"]
  by (simp add: defaultValueToString_def show_bool_def)

section \<open>Relations\<close>

text \<open>
  Claim C2.  \<^verbatim>\<open>subQueryToString\<close> tests \<^verbatim>\<open>where\<close>, \<^verbatim>\<open>limit\<close> and \<^verbatim>\<open>order\<close> for
  truthiness, not for presence: a query whose \<^verbatim>\<open>limit\<close> is \<^verbatim>\<open>0\<close> is rendered without a
  \<^verbatim>\<open>limit\<close> member, while a \<^verbatim>\<open>limit\<close> of \<^verbatim>\<open>1\<close> is rendered.
\<close>

theorem subQueryToString_drops_zero_limit:
  "subQueryToString [(''limit'', JNum ''0'')] = ''{}''
   \<and> schemaItemToString
         (QueryAttribute [(''collectionName'', JStr ''users''), (''limit'', JNum ''0'')] ''many'') None
       = Inr (''S.RelationMany('' @ sq @ ''users'' @ sq @ '',{})'')
   \<and> subQueryToString [(''limit'', JNum ''1'')] = ''{limit: 1}''"
  by code_simp

lemma schemaItemToString_Query:
  "schemaItemToString (QueryAttribute query cardinality) flag = queryToString query cardinality"
  by (cases "queryToString query cardinality") (simp_all add: schemaItemToString.simps)

lemma get_prop_queryParams:
  "k \<noteq> ''collectionName'' \<Longrightarrow> get_prop (queryParams query) k = get_prop query k"
  by (induction query) (auto simp: get_prop_def queryParams_def)

lemma js_index_defined:
  "js_index w i = Inr x \<Longrightarrow> \<exists>y. js_index w j = Inr y"
  by (cases w) simp_all

text \<open>
  Claim C10.  Whenever the test \<^verbatim>\<open>isRelationById\<close> holds for a relation of cardinality
  \<^verbatim>\<open>one\<close>, the third component \<open>v\<close> of the single where clause is put between single
  quotes by the template literal alone (\<^verbatim>\<open>ToString\<close>): \<^verbatim>\<open>valueToJS\<close> is not applied,
  no type is checked and no error is raised, whatever \<open>v\<close> is.
\<close>

theorem relationById_embeds_raw_id:
  assumes "isRelationById query = Inr True"
  shows "\<exists>w0 v. js_index (get_prop query ''where'') 0 = Inr w0 \<and> js_index w0 2 = Inr v
           \<and> schemaItemToString (QueryAttribute query ''one'') flag
               = Inr (''S.RelationById('' @ sq @ toString (get_prop query ''collectionName'') @ sq
                      @ '', '' @ sq @ toString v @ sq @ '')'')"
proof -
  from assms obtain w0 f where w0: "js_index (get_prop query ''where'') 0 = Inr w0"
    and f: "js_index w0 0 = Inr f"
    by (auto simp: isRelationById_def Let_def bind_eq_Inr split: if_splits)
  from f obtain v where v: "js_index w0 2 = Inr v"
    using js_index_defined by blast
  have "queryToString query ''one''
          = Inr (''S.RelationById('' @ sq @ toString (get_prop query ''collectionName'') @ sq
                      @ '', '' @ sq @ toString v @ sq @ '')'')"
    using assms w0 v by (simp add: queryToString_def get_prop_queryParams)
  with w0 v show ?thesis
    by (simp add: schemaItemToString_Query)
qed

text \<open>The number \<^verbatim>\<open>42\<close> and the string \<^verbatim>\<open>"42"\<close> give the same text, and an object as
  id gives \<^verbatim>\<open>[object Object]\<close> instead of an error.\<close>

theorem relationById_embeds_raw_id_witness:
  "schemaItemToString
     (QueryAttribute [(''collectionName'', JStr ''users''),
                      (''where'', JArr [JArr [JStr ''id'', JStr ''='', JNum ''42'']])] ''one'') None
     = Inr (''S.RelationById('' @ sq @ ''users'' @ sq @ '', '' @ sq @ ''42'' @ sq @ '')'')
   \<and> schemaItemToString
     (QueryAttribute [(''collectionName'', JStr ''users''),
                      (''where'', JArr [JArr [JStr ''id'', JStr ''='', JStr ''42'']])] ''one'') None
     = Inr (''S.RelationById('' @ sq @ ''users'' @ sq @ '', '' @ sq @ ''42'' @ sq @ '')'')
   \<and> schemaItemToString
     (QueryAttribute [(''collectionName'', JStr ''users''),
                      (''where'', JArr [JArr [JStr ''id'', JStr ''='', JObj []]])] ''one'') None
     = Inr (''S.RelationById('' @ sq @ ''users'' @ sq @ '', '' @ sq @ ''[object Object]'' @ sq @ '')'')"
proof -
  have n: "isRelationById [(''collectionName'', JStr ''users''),
                           (''where'', JArr [JArr [JStr ''id'', JStr ''='', JNum ''42'']])] = Inr True"
    by code_simp
  have s: "isRelationById [(''collectionName'', JStr ''users''),
                           (''where'', JArr [JArr [JStr ''id'', JStr ''='', JStr ''42'']])] = Inr True"
    by code_simp
  have ob: "isRelationById [(''collectionName'', JStr ''users''),
                           (''where'', JArr [JArr [JStr ''id'', JStr ''='', JObj []]])] = Inr True"
    by code_simp
  show ?thesis
    using relationById_embeds_raw_id [OF n, of None] relationById_embeds_raw_id [OF s, of None]
      relationById_embeds_raw_id [OF ob, of None]
    by (simp add: get_prop_def)
qed

lemma is_tripleE: "is_triple cl \<Longrightarrow> \<exists>f op v. cl = JArr [f, op, v]"
  by (auto simp: is_triple_def split: jsval.splits list.splits)

lemma get_prop_singleton:
  "get_prop [(k, x)] k' \<noteq> JUndefined \<Longrightarrow> k = k' \<and> get_prop [(k, x)] k' = x"
  by (auto simp: get_prop_def split: if_splits)

lemma isRelationById_shape:
  assumes cn: "get_prop query ''collectionName'' = JStr c"
    and wf: "get_prop query ''where'' = JUndefined
             \<or> (\<exists>cls. get_prop query ''where'' = JArr cls \<and> list_all is_triple cls)"
  shows "isRelationById query
           = Inr (c \<noteq> [] \<and> (\<exists>V. queryParams query
                                  = [(''where'', JArr [JArr [JStr ''id'', JStr ''='', V]])]))"
proof -
  have qp: "get_prop (queryParams query) ''where'' = get_prop query ''where''"
    by (simp add: get_prop_queryParams)
  have shape: "get_prop query ''where'' = JArr [JArr [JStr ''id'', JStr ''='', V]]"
    if "queryParams query = [(''where'', JArr [JArr [JStr ''id'', JStr ''='', V]])]" for V
    using qp that by (simp add: get_prop_def)
  from wf show ?thesis
  proof
    assume u: "get_prop query ''where'' = JUndefined"
    with shape have "\<nexists>V. queryParams query = [(''where'', JArr [JArr [JStr ''id'', JStr ''='', V]])]"
      by auto
    with u show ?thesis by (simp add: isRelationById_def Let_def show_nat_eq_one)
  next
    assume "\<exists>cls. get_prop query ''where'' = JArr cls \<and> list_all is_triple cls"
    then obtain cls where w: "get_prop query ''where'' = JArr cls" and t: "list_all is_triple cls"
      by blast
    show ?thesis
    proof (cases cls)
      case Nil
      with w shape show ?thesis by (auto simp: isRelationById_def Let_def cn show_nat_eq_one)
    next
      case (Cons cl rest)
      from t Cons have "is_triple cl" by simp
      then obtain f op v where cl: "cl = JArr [f, op, v]"
        using is_tripleE by blast
      show ?thesis
      proof (cases "rest = [] \<and> f = JStr ''id'' \<and> op = JStr ''=''")
        case False
        with w Cons cl shape show ?thesis
          by (auto simp: isRelationById_def Let_def cn show_nat_eq_one)
      next
        case True
        with w Cons cl have w': "get_prop query ''where'' = JArr [JArr [JStr ''id'', JStr ''='', v]]"
          by simp
        have "length (queryParams query) = 1
                \<longleftrightarrow> queryParams query = [(''where'', JArr [JArr [JStr ''id'', JStr ''='', v]])]"
        proof
          assume "length (queryParams query) = 1"
          then obtain k x where kx: "queryParams query = [(k, x)]"
            by (cases "queryParams query") auto
          with qp w' have "get_prop [(k, x)] ''where'' = JArr [JArr [JStr ''id'', JStr ''='', v]]"
            by simp
          then have "k = ''where'' \<and> x = JArr [JArr [JStr ''id'', JStr ''='', v]]"
            using get_prop_singleton [of k x "''where''"] by auto
          with kx show "queryParams query = [(''where'', JArr [JArr [JStr ''id'', JStr ''='', v]])]"
            by simp
        next
          assume "queryParams query = [(''where'', JArr [JArr [JStr ''id'', JStr ''='', v]])]"
          then show "length (queryParams query) = 1" by simp
        qed
        moreover have "(\<exists>V. queryParams query = [(''where'', JArr [JArr [JStr ''id'', JStr ''='', V]])])
                \<longleftrightarrow> queryParams query = [(''where'', JArr [JArr [JStr ''id'', JStr ''='', v]])]"
          using shape w' by auto
        ultimately show ?thesis
          using w' by (auto simp: isRelationById_def Let_def cn show_nat_eq_one)
      qed
    qed
  qed
qed

text \<open>
  Claim C1, amended.  For a relation whose \<^verbatim>\<open>collectionName\<close> is the string \<open>c\<close> and whose
  \<^verbatim>\<open>where\<close>, when present, is an array of triples:
  \<^item> with cardinality \<^verbatim>\<open>one\<close>, a non-empty \<open>c\<close> and a query that, apart from the collection
    name, is exactly \<^verbatim>\<open>{ where: [["id", "=", V]] }\<close>, the text is \<^verbatim>\<open>S.RelationById\<close>;
  \<^item> with cardinality \<^verbatim>\<open>one\<close> and an empty \<open>c\<close>, another member in the query or another
    \<^verbatim>\<open>where\<close>, the text is \<^verbatim>\<open>S.RelationOne\<close> with the subquery;
  \<^item> with any other cardinality the text is \<^verbatim>\<open>S.RelationMany\<close> with the subquery.
\<close>

theorem relation_form_selection:
  assumes "get_prop query ''collectionName'' = JStr c"
    and "get_prop query ''where'' = JUndefined
         \<or> (\<exists>cls. get_prop query ''where'' = JArr cls \<and> list_all is_triple cls)"
  shows "(cardinality = ''one'' \<and> c \<noteq> []
            \<and> queryParams query = [(''where'', JArr [JArr [JStr ''id'', JStr ''='', V]])]
          \<longrightarrow> schemaItemToString (QueryAttribute query cardinality) flag
                = Inr (''S.RelationById('' @ sq @ c @ sq @ '', '' @ sq @ toString V @ sq @ '')''))
       \<and> (cardinality = ''one''
            \<and> (c = [] \<or> (\<forall>W. queryParams query
                                 \<noteq> [(''where'', JArr [JArr [JStr ''id'', JStr ''='', W]])]))
          \<longrightarrow> schemaItemToString (QueryAttribute query cardinality) flag
                = Inr (''S.RelationOne('' @ sq @ c @ sq @ '',''
                       @ subQueryToString (queryParams query) @ '')''))
       \<and> (cardinality \<noteq> ''one''
          \<longrightarrow> schemaItemToString (QueryAttribute query cardinality) flag
                = Inr (''S.RelationMany('' @ sq @ c @ sq @ '',''
                       @ subQueryToString (queryParams query) @ '')''))"
proof -
  note byId = isRelationById_shape [OF assms]
  have one: "schemaItemToString (QueryAttribute query ''one'') flag
               = Inr (''S.RelationById('' @ sq @ c @ sq @ '', '' @ sq @ toString V @ sq @ '')'')"
    if "c \<noteq> []" "queryParams query = [(''where'', JArr [JArr [JStr ''id'', JStr ''='', V]])]"
    using that byId assms(1)
    by (simp add: schemaItemToString_Query queryToString_def get_prop_def)
  have other: "schemaItemToString (QueryAttribute query ''one'') flag
                = Inr (''S.RelationOne('' @ sq @ c @ sq @ '',''
                       @ subQueryToString (queryParams query) @ '')'')"
    if "c = [] \<or> (\<forall>W. queryParams query
                                 \<noteq> [(''where'', JArr [JArr [JStr ''id'', JStr ''='', W]])])"
    using that byId assms(1)
    by (auto simp: schemaItemToString_Query queryToString_def)
  have many: "schemaItemToString (QueryAttribute query cardinality) flag
                = Inr (''S.RelationMany('' @ sq @ c @ sq @ '',''
                       @ subQueryToString (queryParams query) @ '')'')"
    if "cardinality \<noteq> ''one''"
    using that assms(1) by (simp add: schemaItemToString_Query queryToString_def)
  from one other many show ?thesis by blast
qed

theorem relation_form_selection_witness:
  "schemaItemToString
     (QueryAttribute [(''collectionName'', JStr ''users''),
                      (''where'', JArr [JArr [JStr ''id'', JStr ''='', JStr ''42'']])] ''one'') None
     = Inr (''S.RelationById('' @ sq @ ''users'' @ sq @ '', '' @ sq @ ''42'' @ sq @ '')'')
   \<and> schemaItemToString
     (QueryAttribute [(''collectionName'', JStr ''users''),
                      (''where'', JArr [JArr [JStr ''id'', JStr ''='', JStr ''42'']]),
                      (''limit'', JNum ''1'')] ''one'') None
     = Inr (''S.RelationOne('' @ sq @ ''users'' @ sq @ '',{where: [['' @ dq @ ''id'' @ dq @ '',''
            @ dq @ ''='' @ dq @ '','' @ dq @ ''42'' @ dq @ '']], limit: 1})'')
   \<and> schemaItemToString
     (QueryAttribute [(''collectionName'', JStr ''users''),
                      (''where'', JArr [JArr [JStr ''id'', JStr ''='', JStr ''42'']])] ''many'') None
     = Inr (''S.RelationMany('' @ sq @ ''users'' @ sq @ '',{where: [['' @ dq @ ''id'' @ dq @ '',''
            @ dq @ ''='' @ dq @ '','' @ dq @ ''42'' @ dq @ '']]})'')"
proof -
  let ?q1 = "[(''collectionName'', JStr ''users''),
              (''where'', JArr [JArr [JStr ''id'', JStr ''='', JStr ''42'']])]"
  let ?q2 = "[(''collectionName'', JStr ''users''),
              (''where'', JArr [JArr [JStr ''id'', JStr ''='', JStr ''42'']]),
              (''limit'', JNum ''1'')]"
  have c1: "get_prop ?q1 ''collectionName'' = JStr ''users''"
    by (simp add: get_prop_def)
  have w1: "get_prop ?q1 ''where'' = JUndefined
            \<or> (\<exists>cls. get_prop ?q1 ''where'' = JArr cls \<and> list_all is_triple cls)"
    by (simp add: get_prop_def is_triple_def)
  have c2: "get_prop ?q2 ''collectionName'' = JStr ''users''"
    by (simp add: get_prop_def)
  have w2: "get_prop ?q2 ''where'' = JUndefined
            \<or> (\<exists>cls. get_prop ?q2 ''where'' = JArr cls \<and> list_all is_triple cls)"
    by (simp add: get_prop_def is_triple_def)
  have s1: "subQueryToString (queryParams ?q1)
              = ''{where: [['' @ dq @ ''id'' @ dq @ '','' @ dq @ ''='' @ dq @ '',''
                @ dq @ ''42'' @ dq @ '']]}''"
    by code_simp
  have s2: "subQueryToString (queryParams ?q2)
              = ''{where: [['' @ dq @ ''id'' @ dq @ '','' @ dq @ ''='' @ dq @ '',''
                @ dq @ ''42'' @ dq @ '']], limit: 1}''"
    by code_simp
  have p1: "queryParams ?q1 = [(''where'', JArr [JArr [JStr ''id'', JStr ''='', JStr ''42'']])]"
    by (simp add: queryParams_def)
  have p2: "\<forall>W. queryParams ?q2 \<noteq> [(''where'', JArr [JArr [JStr ''id'', JStr ''='', W]])]"
    by (simp add: queryParams_def)
  show ?thesis
    using relation_form_selection [OF c1 w1, of "''one''" "JStr ''42''" None]
      relation_form_selection [OF c2 w2, of "''one''" "JStr ''42''" None]
      relation_form_selection [OF c1 w1, of "''many''" "JStr ''42''" None]
      p1 p2 s1 s2
    by simp
qed

text \<open>With an empty collection name the test \<^verbatim>\<open>collectionName && ...\<close> fails, and a query
  that is exactly an id equality is rendered in the general form.\<close>

theorem relationById_empty_collectionName_counterexample:
  "schemaItemToString
     (QueryAttribute [(''collectionName'', JStr ''''),
                      (''where'', JArr [JArr [JStr ''id'', JStr ''='', JStr ''42'']])] ''one'') None
     = Inr (''S.RelationOne('' @ sq @ sq @ '',{where: [['' @ dq @ ''id'' @ dq @ '',''
            @ dq @ ''='' @ dq @ '','' @ dq @ ''42'' @ dq @ '']]})'')
   \<and> schemaItemToString
     (QueryAttribute [(''collectionName'', JStr ''''),
                      (''where'', JArr [JArr [JStr ''id'', JStr ''='', JStr ''42'']])] ''one'') None
     \<noteq> Inr (''S.RelationById('' @ sq @ sq @ '', '' @ sq @ ''42'' @ sq @ '')'')"
  by code_simp

section \<open>Trees of properties\<close>

lemma mapE_bind_Inr:
  "mapE (\<lambda>x. bind (f x) (\<lambda>y. Inr (g x y))) xs = bind (mapE f xs) (\<lambda>ys. Inr (map2 g xs ys))"
  by (induction xs) (auto simp: bind_def split: sum.splits)

lemma bind_assoc_Inr: "bind (bind m (\<lambda>r. Inr (f r))) g = bind m (\<lambda>r. g (f r))"
  by (cases m) simp_all

lemma bind_cong_Inr: "(\<And>r. m = Inr r \<Longrightarrow> f r = g r) \<Longrightarrow> bind m f = bind m g"
  by (cases m) simp_all

text \<open>The optional flag only decides about the wrapper: the text with a flag is the text
  without one, wrapped when the flag is set and the attribute is no relation.\<close>

lemma schemaItemToString_flag:
  "schemaItemToString a flag =
     bind (schemaItemToString a None)
       (\<lambda>body. Inr (if flag = Some True \<and> attribute_type a \<noteq> ''query''
                     then ''S.Optional('' @ body @ '')'' else body))"
  unfolding schemaItemToString.simps [of a flag] schemaItemToString.simps [of a None]
    bind_assoc_Inr
  by (rule bind_cong_Inr) (cases flag; simp add: wrapOptional_def)

lemma schemaItemToString_Value:
  "schemaItemToString (ValueAttribute t opts) None =
     (if t = ''string''
        then bind (valueOptionsToString opts) (\<lambda>os. Inr (''S.String('' @ os @ '')''))
      else if t = ''boolean''
        then bind (valueOptionsToString opts) (\<lambda>os. Inr (''S.Boolean('' @ os @ '')''))
      else if t = ''number''
        then bind (valueOptionsToString opts) (\<lambda>os. Inr (''S.Number('' @ os @ '')''))
      else if t = ''date''
        then bind (valueOptionsToString opts) (\<lambda>os. Inr (''S.Date('' @ os @ '')''))
      else if t = ''set'' \<or> t = ''record'' \<or> t = ''query''
        then Inl TypeError
      else Inl (Error (''Invalid type: '' @ t)))"
  unfolding schemaItemToString.simps [of "ValueAttribute t opts" None]
  by (cases "valueOptionsToString opts") (simp_all add: wrapOptional_def)

lemma schemaItemToString_Set:
  "schemaItemToString (SetAttribute items opts) None =
     bind (schemaItemToString items None) (\<lambda>item.
       bind (valueOptionsToString opts) (\<lambda>os. Inr (''S.Set('' @ item @ '','' @ os @ '')'')))"
  unfolding schemaItemToString.simps [of "SetAttribute items opts" None]
  by (cases "schemaItemToString items None"; cases "valueOptionsToString opts")
     (simp_all add: wrapOptional_def)

lemma schemaItemToString_Record:
  "schemaItemToString (RecordAttribute props opt) None =
     bind (mapE (\<lambda>entry. schemaItemToString (snd entry) (Some (includes_key opt (fst entry)))) props)
       (\<lambda>ts. Inr (''S.Record({''
                   @ join (map2 (\<lambda>entry t. sq @ fst entry @ sq @ '': '' @ t) props ts) ('','' @ nl)
                   @ ''})''))"
  unfolding schemaItemToString.simps [of "RecordAttribute props opt" None] mapE_def [symmetric]
    mapE_bind_Inr
  by (cases "mapE (\<lambda>entry. schemaItemToString (snd entry) (Some (includes_key opt (fst entry)))) props")
     (simp_all add: wrapOptional_def)

lemma attributesLoop_mapE:
  "attributesLoop props opt indent result =
     bind (mapE (\<lambda>entry. schemaItemToString (snd entry) (Some (includes_key opt (fst entry)))) props)
       (\<lambda>ts. Inr (result
                   @ concat (map2 (\<lambda>entry t. indent @ indentation @ sq @ fst entry @ sq @ '': '' @ t
                                             @ '','' @ nl) props ts)))"
proof (induction props arbitrary: result)
  case Nil
  then show ?case by simp
next
  case (Cons entry props)
  show ?case
    by (cases "schemaItemToString (snd entry) (Some (includes_key opt (fst entry)))";
        cases "mapE (\<lambda>entry. schemaItemToString (snd entry) (Some (includes_key opt (fst entry)))) props")
       (simp_all add: Cons.IH)
qed

lemma generateAttributesSection_mapE:
  "generateAttributesSection sch indent =
     bind (mapE (\<lambda>entry. schemaItemToString (snd entry)
                            (Some (includes_key (optional sch) (fst entry)))) (properties sch))
       (\<lambda>ts. Inr (indent @ ''schema: S.Schema({'' @ nl
                   @ concat (map2 (\<lambda>entry t. indent @ indentation @ sq @ fst entry @ sq @ '': '' @ t
                                             @ '','' @ nl) (properties sch) ts)
                   @ indent @ ''}),'' @ nl))"
  unfolding generateAttributesSection_def attributesLoop_mapE
  by (cases "mapE (\<lambda>entry. schemaItemToString (snd entry)
                            (Some (includes_key (optional sch) (fst entry)))) (properties sch)")
     simp_all

lemma collectionsLoop_mapE:
  "collectionsLoop cs indent result =
     bind (mapE (\<lambda>entry. generateAttributesSection (schema (snd entry)) (indent @ indentation)) cs)
       (\<lambda>ts. Inr (result
                   @ concat (map2 (\<lambda>entry t. indent @ sq @ fst entry @ sq @ '': {'' @ nl @ t
                                     @ generateRulesSection (rules (snd entry)) (indent @ indentation)
                                     @ indent @ ''},'' @ nl) cs ts)))"
proof (induction cs arbitrary: result)
  case Nil
  then show ?case by simp
next
  case (Cons entry cs)
  show ?case
    by (cases "generateAttributesSection (schema (snd entry)) (indent @ indentation)";
        cases "mapE (\<lambda>entry. generateAttributesSection (schema (snd entry)) (indent @ indentation)) cs")
       (simp_all add: Cons.IH)
qed

lemma collectionsDefinitionToFileContent_mapE:
  "collectionsDefinitionToFileContent cs indent =
     bind (mapE (\<lambda>entry. generateAttributesSection (schema (snd entry)) (indent @ indentation)) cs)
       (\<lambda>ts. Inr (''{'' @ nl
                   @ concat (map2 (\<lambda>entry t. indent @ sq @ fst entry @ sq @ '': {'' @ nl @ t
                                     @ generateRulesSection (rules (snd entry)) (indent @ indentation)
                                     @ indent @ ''},'' @ nl) cs ts)
                   @ slice_off2 indent @ ''}''))"
  unfolding collectionsDefinitionToFileContent_def collectionsLoop_mapE
  by (cases "mapE (\<lambda>entry. generateAttributesSection (schema (snd entry)) (indent @ indentation)) cs")
     simp_all

lemma queryToString_not_Optional:
  "queryToString query cardinality = Inr body \<Longrightarrow> \<not> prefix ''S.Optional('' body"
  by (auto simp: queryToString_def Let_def bind_eq_Inr split: if_splits)

lemma schemaItemToString_body_not_Optional:
  "schemaItemToString a None = Inr body \<Longrightarrow> \<not> prefix ''S.Optional('' body"
proof (cases a)
  case (ValueAttribute t opts)
  assume "schemaItemToString a None = Inr body"
  with ValueAttribute show ?thesis
    by (auto simp: schemaItemToString_Value bind_eq_Inr split: if_splits)
next
  case (SetAttribute items opts)
  assume "schemaItemToString a None = Inr body"
  with SetAttribute show ?thesis
    by (auto simp: schemaItemToString_Set bind_eq_Inr)
next
  case (RecordAttribute props opt)
  assume "schemaItemToString a None = Inr body"
  with RecordAttribute show ?thesis
    by (auto simp: schemaItemToString_Record bind_eq_Inr)
next
  case (QueryAttribute query cardinality)
  assume "schemaItemToString a None = Inr body"
  with QueryAttribute show ?thesis
    by (simp add: schemaItemToString_Query queryToString_not_Optional)
qed

lemma includes_key_iff: "includes_key opt key \<longleftrightarrow> (\<exists>ks. opt = Some ks \<and> key \<in> set ks)"
  by (cases opt) (simp_all add: includes_key_def)

text \<open>The entries of a tree, each the text without flag, wrapped where the key is in
  the optional set of the tree and the attribute is no relation.\<close>

lemma mapE_flagged_entries:
  "mapE (\<lambda>entry. schemaItemToString (snd entry) (Some (includes_key opt (fst entry)))) props =
     bind (mapE (\<lambda>entry. schemaItemToString (snd entry) None) props)
       (\<lambda>bodies. Inr (map2 (\<lambda>entry body.
            if (\<exists>ks. opt = Some ks \<and> fst entry \<in> set ks) \<and> attribute_type (snd entry) \<noteq> ''query''
            then ''S.Optional('' @ body @ '')'' else body) props bodies))"
proof -
  have "(\<lambda>entry. schemaItemToString (snd entry) (Some (includes_key opt (fst entry)))) =
        (\<lambda>entry. bind (schemaItemToString (snd entry) None)
           (\<lambda>body. Inr (if (\<exists>ks. opt = Some ks \<and> fst entry \<in> set ks)
                              \<and> attribute_type (snd entry) \<noteq> ''query''
                           then ''S.Optional('' @ body @ '')'' else body)))"
    by (rule ext, subst schemaItemToString_flag) (simp add: includes_key_iff)
  then show ?thesis
    by (simp only: mapE_bind_Inr)
qed

lemma map2_map2:
  "length ys = length xs \<Longrightarrow> map2 f xs (map2 g xs ys) = map2 (\<lambda>x y. f x (g x y)) xs ys"
  by (induction xs ys rule: list_induct2') simp_all

lemma list_all2_bodies:
  "list_all2 (\<lambda>entry body. schemaItemToString (snd entry) None = Inr body) props bodies
   \<Longrightarrow> list_all2 (\<lambda>entry body. schemaItemToString (snd entry) None = Inr body
                        \<and> \<not> prefix ''S.Optional('' body) props bodies"
  by (erule list_all2_mono) (simp add: schemaItemToString_body_not_Optional)

text \<open>
  Claim C3.  In the text of a tree (the properties of a collection, or of a record) the
  entry of a key is the text of its attribute wrapped in \<^verbatim>\<open>S.Optional(...)\<close> if and only if
  the key is in the \<^verbatim>\<open>optional\<close> list of that tree and the attribute is no relation; the
  text of the attribute itself, which has no flag of its own, never starts with the
  marker.  The same holds for a single call of the encoder with the flag of the tree.
\<close>

theorem optional_marker_from_parent:
  "(schemaItemToString a (Some (includes_key opt key)) = Inr t \<longrightarrow>
      (\<exists>body. schemaItemToString a None = Inr body \<and> \<not> prefix ''S.Optional('' body
         \<and> t = (if (\<exists>ks. opt = Some ks \<and> key \<in> set ks) \<and> attribute_type a \<noteq> ''query''
                then ''S.Optional('' @ body @ '')'' else body)))
   \<and> (generateAttributesSection sch indent = Inr out1 \<longrightarrow>
      (\<exists>bodies.
         list_all2 (\<lambda>entry body. schemaItemToString (snd entry) None = Inr body
                                  \<and> \<not> prefix ''S.Optional('' body) (properties sch) bodies
         \<and> out1 = indent @ ''schema: S.Schema({'' @ nl
             @ concat (map2 (\<lambda>entry body. indent @ indentation @ sq @ fst entry @ sq @ '': ''
                 @ (if (\<exists>ks. optional sch = Some ks \<and> fst entry \<in> set ks)
                        \<and> attribute_type (snd entry) \<noteq> ''query''
                    then ''S.Optional('' @ body @ '')'' else body)
                 @ '','' @ nl) (properties sch) bodies)
             @ indent @ ''}),'' @ nl))
   \<and> (schemaItemToString (RecordAttribute props ropt) None = Inr out2 \<longrightarrow>
      (\<exists>bodies.
         list_all2 (\<lambda>entry body. schemaItemToString (snd entry) None = Inr body
                                  \<and> \<not> prefix ''S.Optional('' body) props bodies
         \<and> out2 = ''S.Record({''
             @ join (map2 (\<lambda>entry body. sq @ fst entry @ sq @ '': ''
                 @ (if (\<exists>ks. ropt = Some ks \<and> fst entry \<in> set ks)
                        \<and> attribute_type (snd entry) \<noteq> ''query''
                    then ''S.Optional('' @ body @ '')'' else body)) props bodies) ('','' @ nl)
             @ ''})''))"
proof (intro conjI impI)
  assume "schemaItemToString a (Some (includes_key opt key)) = Inr t"
  then obtain body where b: "schemaItemToString a None = Inr body"
    and t: "t = (if includes_key opt key \<and> attribute_type a \<noteq> ''query''
                 then ''S.Optional('' @ body @ '')'' else body)"
    by (subst (asm) schemaItemToString_flag) (auto simp: bind_eq_Inr)
  with schemaItemToString_body_not_Optional [OF b]
  show "\<exists>body. schemaItemToString a None = Inr body \<and> \<not> prefix ''S.Optional('' body
         \<and> t = (if (\<exists>ks. opt = Some ks \<and> key \<in> set ks) \<and> attribute_type a \<noteq> ''query''
                then ''S.Optional('' @ body @ '')'' else body)"
    by (simp add: includes_key_iff)
next
  assume "generateAttributesSection sch indent = Inr out1"
  then obtain bodies
    where b: "list_all2 (\<lambda>entry body. schemaItemToString (snd entry) None = Inr body)
                (properties sch) bodies"
      and o: "out1 = indent @ ''schema: S.Schema({'' @ nl
             @ concat (map2 (\<lambda>entry t. indent @ indentation @ sq @ fst entry @ sq @ '': '' @ t
                               @ '','' @ nl) (properties sch)
                 (map2 (\<lambda>entry body.
                    if (\<exists>ks. optional sch = Some ks \<and> fst entry \<in> set ks)
                        \<and> attribute_type (snd entry) \<noteq> ''query''
                    then ''S.Optional('' @ body @ '')'' else body) (properties sch) bodies))
             @ indent @ ''}),'' @ nl"
    by (auto simp: generateAttributesSection_mapE mapE_flagged_entries bind_eq_Inr mapE_eq_Inr)
  from b have "length bodies = length (properties sch)"
    by (simp add: list_all2_lengthD)
  with o list_all2_bodies [OF b]
  show "\<exists>bodies.
         list_all2 (\<lambda>entry body. schemaItemToString (snd entry) None = Inr body
                                  \<and> \<not> prefix ''S.Optional('' body) (properties sch) bodies
         \<and> out1 = indent @ ''schema: S.Schema({'' @ nl
             @ concat (map2 (\<lambda>entry body. indent @ indentation @ sq @ fst entry @ sq @ '': ''
                 @ (if (\<exists>ks. optional sch = Some ks \<and> fst entry \<in> set ks)
                        \<and> attribute_type (snd entry) \<noteq> ''query''
                    then ''S.Optional('' @ body @ '')'' else body)
                 @ '','' @ nl) (properties sch) bodies)
             @ indent @ ''}),'' @ nl"
    by (intro exI [of _ bodies]) (simp add: map2_map2)
next
  assume "schemaItemToString (RecordAttribute props ropt) None = Inr out2"
  then obtain bodies
    where b: "list_all2 (\<lambda>entry body. schemaItemToString (snd entry) None = Inr body) props bodies"
      and o: "out2 = ''S.Record({''
             @ join (map2 (\<lambda>entry t. sq @ fst entry @ sq @ '': '' @ t) props
                 (map2 (\<lambda>entry body.
                    if (\<exists>ks. ropt = Some ks \<and> fst entry \<in> set ks)
                        \<and> attribute_type (snd entry) \<noteq> ''query''
                    then ''S.Optional('' @ body @ '')'' else body) props bodies)) ('','' @ nl)
             @ ''})''"
    by (auto simp: schemaItemToString_Record mapE_flagged_entries bind_eq_Inr mapE_eq_Inr)
  from b have "length bodies = length props"
    by (simp add: list_all2_lengthD)
  with o list_all2_bodies [OF b]
  show "\<exists>bodies.
         list_all2 (\<lambda>entry body. schemaItemToString (snd entry) None = Inr body
                                  \<and> \<not> prefix ''S.Optional('' body) props bodies
         \<and> out2 = ''S.Record({''
             @ join (map2 (\<lambda>entry body. sq @ fst entry @ sq @ '': ''
                 @ (if (\<exists>ks. ropt = Some ks \<and> fst entry \<in> set ks)
                        \<and> attribute_type (snd entry) \<noteq> ''query''
                    then ''S.Optional('' @ body @ '')'' else body)) props bodies) ('','' @ nl)
             @ ''})''"
    by (intro exI [of _ bodies]) (simp add: map2_map2)
qed

theorem optional_marker_from_parent_witness:
  "schemaItemToString (ValueAttribute ''string'' \<lparr>nullable = None, defaultValue = JUndefined\<rparr>)
      (Some (includes_key (Some [''name'']) ''name'')) = Inr ''S.Optional(S.String())''
   \<and> schemaItemToString (ValueAttribute ''string'' \<lparr>nullable = None, defaultValue = JUndefined\<rparr>)
      None = Inr ''S.String()''
   \<and> generateAttributesSection
       \<lparr>properties = [(''name'', ValueAttribute ''string'' \<lparr>nullable = None, defaultValue = JUndefined\<rparr>),
                      (''age'', ValueAttribute ''number'' \<lparr>nullable = None, defaultValue = JUndefined\<rparr>),
                      (''owner'', QueryAttribute [(''collectionName'', JStr ''users'')] ''many'')],
        optional = Some [''name'', ''owner'']\<rparr> []
      = Inr (''schema: S.Schema({'' @ nl
             @ ''  '' @ sq @ ''name'' @ sq @ '': S.Optional(S.String()),'' @ nl
             @ ''  '' @ sq @ ''age'' @ sq @ '': S.Number(),'' @ nl
             @ ''  '' @ sq @ ''owner'' @ sq @ '': S.RelationMany('' @ sq @ ''users'' @ sq @ '',{}),'' @ nl
             @ ''}),'' @ nl)
   \<and> schemaItemToString
       (RecordAttribute
          [(''name'', ValueAttribute ''string'' \<lparr>nullable = None, defaultValue = JUndefined\<rparr>),
           (''age'', ValueAttribute ''number'' \<lparr>nullable = None, defaultValue = JUndefined\<rparr>)]
          (Some [''age''])) None
      = Inr (''S.Record({'' @ sq @ ''name'' @ sq @ '': S.String(),'' @ nl
             @ sq @ ''age'' @ sq @ '': S.Optional(S.Number())})'')"
proof -
  let ?s = "ValueAttribute ''string'' \<lparr>nullable = None, defaultValue = JUndefined\<rparr>"
  let ?n = "ValueAttribute ''number'' \<lparr>nullable = None, defaultValue = JUndefined\<rparr>"
  let ?sch = "\<lparr>properties = [(''name'', ?s), (''age'', ?n),
                 (''owner'', QueryAttribute [(''collectionName'', JStr ''users'')] ''many'')],
               optional = Some [''name'', ''owner'']\<rparr>"
  let ?props = "[(''name'', ?s), (''age'', ?n)]"
  let ?out1 = "''schema: S.Schema({'' @ nl
             @ ''  '' @ sq @ ''name'' @ sq @ '': S.Optional(S.String()),'' @ nl
             @ ''  '' @ sq @ ''age'' @ sq @ '': S.Number(),'' @ nl
             @ ''  '' @ sq @ ''owner'' @ sq @ '': S.RelationMany('' @ sq @ ''users'' @ sq @ '',{}),'' @ nl
             @ ''}),'' @ nl"
  let ?out2 = "''S.Record({'' @ sq @ ''name'' @ sq @ '': S.String(),'' @ nl
             @ sq @ ''age'' @ sq @ '': S.Optional(S.Number())})''"
  have e1: "schemaItemToString ?s (Some (includes_key (Some [''name'']) ''name''))
              = Inr ''S.Optional(S.String())''"
    by code_simp
  have e2: "generateAttributesSection ?sch [] = Inr ?out1"
    by code_simp
  have e3: "schemaItemToString (RecordAttribute ?props (Some [''age''])) None = Inr ?out2"
    by code_simp
  from optional_marker_from_parent
         [of ?s "Some [''name'']" "''name''" "''S.Optional(S.String())''" ?sch "[]" ?out1
             ?props "Some [''age'']" ?out2] e1
  have "schemaItemToString ?s None = Inr ''S.String()''"
    by auto
  with e1 e2 e3 show ?thesis
    by simp
qed

section \<open>The module text\<close>

lemma trim_padded:
  assumes "list_all is_space ws1" and "list_all is_space ws2"
    and "\<not> is_space a" and "\<not> is_space z"
  shows "trim (ws1 @ a # mid @ z # ws2) = a # mid @ [z]"
proof -
  have "dropWhile is_space (ws1 @ a # mid @ z # ws2) = a # mid @ z # ws2"
    using assms(1,3) by (simp add: dropWhile_append2 list_all_iff)
  moreover have "dropWhile is_space (rev ws2 @ z # rev mid @ [a]) = z # rev mid @ [a]"
    using assms(2,4) dropWhile_append2 [of "rev ws2" is_space "z # rev mid @ [a]"]
    by (simp add: list_all_iff)
  ultimately show ?thesis
    by (simp add: trim_def)
qed

lemma schemaFileContentFromJSON_text:
  "schemaFileContentFromJSON schemaJSON =
     bind (collectionsDefinitionToFileContent
             (case schemaJSON of
                None \<Rightarrow> []
              | Some j \<Rightarrow> (case collections j of None \<Rightarrow> [] | Some cs \<Rightarrow> cs))
             indentation)
       (\<lambda>schemaContent. Inr (file_text schemaContent))"
proof -
  have "trim (nl @ ''/**'' @ nl
                     @ '' * This file is auto-generated by the Triplit CLI.'' @ nl
                     @ '' */ '' @ nl
                     @ nl
                     @ ''import { Schema as S } from '' @ sq @ ''@triplit/db'' @ sq @ '';'' @ nl
                     @ ''export const schema = '' @ schemaContent @ '';'' @ nl
                     @ ''      '') @ nl
        = file_text schemaContent" for schemaContent
    using trim_padded [of nl "nl @ ''      ''" "CHR ''/''" "CHR '';''"
        "''**'' @ nl @ '' * This file is auto-generated by the Triplit CLI.'' @ nl
         @ '' */ '' @ nl @ nl
         @ ''import { Schema as S } from '' @ sq @ ''@triplit/db'' @ sq @ '';'' @ nl
         @ ''export const schema = '' @ schemaContent"]
    by (simp add: is_space_def file_text_def)
  then show ?thesis
    by (simp add: schemaFileContentFromJSON_def)
qed

section \<open>The order of the entries\<close>

lemma enumeration_order_no_index:
  "\<forall>p\<in>set decl. \<not> is_array_index (fst p) \<Longrightarrow> enumeration_order decl = decl"
  by (simp add: enumeration_order_def filter_empty_conv filter_id_conv)

lemma enumeration_order_split:
  "\<exists>idx. enumeration_order decl = idx @ filter (\<lambda>p. \<not> is_array_index (fst p)) decl
         \<and> set idx = {p \<in> set decl. is_array_index (fst p)}
         \<and> length idx = length (filter (\<lambda>p. is_array_index (fst p)) decl)
         \<and> sorted (map (\<lambda>p. decimal_value (fst p)) idx)"
  by (intro exI [of _ "sort_key (\<lambda>p. decimal_value (fst p))
                         (filter (\<lambda>p. is_array_index (fst p)) decl)"])
     (auto simp: enumeration_order_def)

text \<open>
  Claim C8, amended.  The entries of a record, the properties of a collection and the
  collections of the module are written in the enumeration order of the mapping: the
  text is the header, then one piece per member in that order, then the footer.  The
  enumeration order has the keys that are array indices first, ascending, and then the
  other keys in the order of their declaration; for a mapping without such keys it is
  the declaration order.  In particular a tree with the properties \<open>b\<close>, \<open>a\<close> declared in
  this order, neither an array index, has the entry of \<open>b\<close> before that of \<open>a\<close>.
\<close>

theorem enumeration_order_in_output:
  "((\<forall>p\<in>set decl. \<not> is_array_index (fst p)) \<longrightarrow> enumeration_order decl = decl)
   \<and> ((\<forall>p\<in>set cdecl. \<not> is_array_index (fst p)) \<longrightarrow> enumeration_order cdecl = cdecl)
   \<and> (\<exists>idx. enumeration_order decl = idx @ filter (\<lambda>p. \<not> is_array_index (fst p)) decl
         \<and> set idx = {p \<in> set decl. is_array_index (fst p)}
         \<and> length idx = length (filter (\<lambda>p. is_array_index (fst p)) decl)
         \<and> sorted (map (\<lambda>p. decimal_value (fst p)) idx))
   \<and> (schemaItemToString (RecordAttribute (enumeration_order decl) ropt) None = Inr out1 \<longrightarrow>
      (\<exists>ts. list_all2 (\<lambda>entry t. schemaItemToString (snd entry)
                                    (Some (includes_key ropt (fst entry))) = Inr t)
                (enumeration_order decl) ts
         \<and> out1 = ''S.Record({''
             @ join (map2 (\<lambda>entry t. sq @ fst entry @ sq @ '': '' @ t) (enumeration_order decl) ts)
                 ('','' @ nl)
             @ ''})''))
   \<and> (generateAttributesSection \<lparr>properties = enumeration_order decl, optional = opt\<rparr> indent
         = Inr out2 \<longrightarrow>
      (\<exists>ts. list_all2 (\<lambda>entry t. schemaItemToString (snd entry)
                                    (Some (includes_key opt (fst entry))) = Inr t)
                (enumeration_order decl) ts
         \<and> out2 = indent @ ''schema: S.Schema({'' @ nl
             @ concat (map2 (\<lambda>entry t. indent @ indentation @ sq @ fst entry @ sq @ '': '' @ t
                                       @ '','' @ nl) (enumeration_order decl) ts)
             @ indent @ ''}),'' @ nl))
   \<and> (\<not> is_array_index b \<and> \<not> is_array_index a
        \<and> generateAttributesSection
             \<lparr>properties = enumeration_order [(b, x), (a, y)], optional = opt\<rparr> indent = Inr out3
      \<longrightarrow>
      (\<exists>tb ta. schemaItemToString x (Some (includes_key opt b)) = Inr tb
         \<and> schemaItemToString y (Some (includes_key opt a)) = Inr ta
         \<and> out3 = indent @ ''schema: S.Schema({'' @ nl
             @ (indent @ indentation @ sq @ b @ sq @ '': '' @ tb @ '','' @ nl)
             @ (indent @ indentation @ sq @ a @ sq @ '': '' @ ta @ '','' @ nl)
             @ indent @ ''}),'' @ nl))
   \<and> (collections j = Some (enumeration_order cdecl)
        \<and> schemaFileContentFromJSON (Some j) = Inr out4 \<longrightarrow>
      (\<exists>ts. list_all2 (\<lambda>entry t. generateAttributesSection (schema (snd entry))
                                    (indentation @ indentation) = Inr t)
                (enumeration_order cdecl) ts
         \<and> out4 = file_text (''{'' @ nl
             @ concat (map2 (\<lambda>entry t. indentation @ sq @ fst entry @ sq @ '': {'' @ nl @ t
                               @ generateRulesSection (rules (snd entry)) (indentation @ indentation)
                               @ indentation @ ''},'' @ nl) (enumeration_order cdecl) ts)
             @ ''}'')))"
proof (intro conjI impI)
  assume "\<forall>p\<in>set decl. \<not> is_array_index (fst p)"
  then show "enumeration_order decl = decl"
    by (rule enumeration_order_no_index)
next
  assume "\<forall>p\<in>set cdecl. \<not> is_array_index (fst p)"
  then show "enumeration_order cdecl = cdecl"
    by (rule enumeration_order_no_index)
next
  show "\<exists>idx. enumeration_order decl = idx @ filter (\<lambda>p. \<not> is_array_index (fst p)) decl
         \<and> set idx = {p \<in> set decl. is_array_index (fst p)}
         \<and> length idx = length (filter (\<lambda>p. is_array_index (fst p)) decl)
         \<and> sorted (map (\<lambda>p. decimal_value (fst p)) idx)"
    by (rule enumeration_order_split)
next
  assume "schemaItemToString (RecordAttribute (enumeration_order decl) ropt) None = Inr out1"
  then show "\<exists>ts. list_all2 (\<lambda>entry t. schemaItemToString (snd entry)
                                    (Some (includes_key ropt (fst entry))) = Inr t)
                (enumeration_order decl) ts
         \<and> out1 = ''S.Record({''
             @ join (map2 (\<lambda>entry t. sq @ fst entry @ sq @ '': '' @ t) (enumeration_order decl) ts)
                 ('','' @ nl)
             @ ''})''"
    by (auto simp: schemaItemToString_Record bind_eq_Inr mapE_eq_Inr)
next
  assume "generateAttributesSection \<lparr>properties = enumeration_order decl, optional = opt\<rparr> indent
            = Inr out2"
  then show "\<exists>ts. list_all2 (\<lambda>entry t. schemaItemToString (snd entry)
                                    (Some (includes_key opt (fst entry))) = Inr t)
                (enumeration_order decl) ts
         \<and> out2 = indent @ ''schema: S.Schema({'' @ nl
             @ concat (map2 (\<lambda>entry t. indent @ indentation @ sq @ fst entry @ sq @ '': '' @ t
                                       @ '','' @ nl) (enumeration_order decl) ts)
             @ indent @ ''}),'' @ nl"
    by (auto simp: generateAttributesSection_mapE bind_eq_Inr mapE_eq_Inr)
next
  assume h: "\<not> is_array_index b \<and> \<not> is_array_index a
        \<and> generateAttributesSection
             \<lparr>properties = enumeration_order [(b, x), (a, y)], optional = opt\<rparr> indent = Inr out3"
  then have "enumeration_order [(b, x), (a, y)] = [(b, x), (a, y)]"
    by (intro enumeration_order_no_index) simp
  with h show "\<exists>tb ta. schemaItemToString x (Some (includes_key opt b)) = Inr tb
         \<and> schemaItemToString y (Some (includes_key opt a)) = Inr ta
         \<and> out3 = indent @ ''schema: S.Schema({'' @ nl
             @ (indent @ indentation @ sq @ b @ sq @ '': '' @ tb @ '','' @ nl)
             @ (indent @ indentation @ sq @ a @ sq @ '': '' @ ta @ '','' @ nl)
             @ indent @ ''}),'' @ nl"
    by (auto simp: generateAttributesSection_mapE bind_eq_Inr mapE_eq_Inr list_all2_Cons1
        simp del: mapE_Cons)
next
  assume "collections j = Some (enumeration_order cdecl)
        \<and> schemaFileContentFromJSON (Some j) = Inr out4"
  then show "\<exists>ts. list_all2 (\<lambda>entry t. generateAttributesSection (schema (snd entry))
                                    (indentation @ indentation) = Inr t)
                (enumeration_order cdecl) ts
         \<and> out4 = file_text (''{'' @ nl
             @ concat (map2 (\<lambda>entry t. indentation @ sq @ fst entry @ sq @ '': {'' @ nl @ t
                               @ generateRulesSection (rules (snd entry)) (indentation @ indentation)
                               @ indentation @ ''},'' @ nl) (enumeration_order cdecl) ts)
             @ ''}'')"
    by (auto simp: schemaFileContentFromJSON_text collectionsDefinitionToFileContent_mapE
        bind_eq_Inr mapE_eq_Inr slice_off2_def indentation_def)
qed

theorem enumeration_order_in_output_witness:
  "enumeration_order
      [(''b'', ValueAttribute ''string'' \<lparr>nullable = None, defaultValue = JUndefined\<rparr>),
       (''a'', ValueAttribute ''number'' \<lparr>nullable = None, defaultValue = JUndefined\<rparr>)]
     = [(''b'', ValueAttribute ''string'' \<lparr>nullable = None, defaultValue = JUndefined\<rparr>),
        (''a'', ValueAttribute ''number'' \<lparr>nullable = None, defaultValue = JUndefined\<rparr>)]
   \<and> schemaItemToString
      (RecordAttribute
         (enumeration_order
            [(''b'', ValueAttribute ''string'' \<lparr>nullable = None, defaultValue = JUndefined\<rparr>),
             (''a'', ValueAttribute ''number'' \<lparr>nullable = None, defaultValue = JUndefined\<rparr>)])
         None) None
     = Inr (''S.Record({'' @ sq @ ''b'' @ sq @ '': S.String(),'' @ nl
            @ sq @ ''a'' @ sq @ '': S.Number()})'')
   \<and> generateAttributesSection
       \<lparr>properties = enumeration_order
          [(''b'', ValueAttribute ''string'' \<lparr>nullable = None, defaultValue = JUndefined\<rparr>),
           (''a'', ValueAttribute ''number'' \<lparr>nullable = None, defaultValue = JUndefined\<rparr>)],
        optional = None\<rparr> ''    ''
     = Inr (''    schema: S.Schema({'' @ nl
            @ ''      '' @ sq @ ''b'' @ sq @ '': S.String(),'' @ nl
            @ ''      '' @ sq @ ''a'' @ sq @ '': S.Number(),'' @ nl
            @ ''    }),'' @ nl)
   \<and> schemaFileContentFromJSON
       (Some \<lparr>version = 1, collections = Some (enumeration_order
          [(''zebra'', \<lparr>schema = \<lparr>properties =
                [(''b'', ValueAttribute ''string'' \<lparr>nullable = None, defaultValue = JUndefined\<rparr>),
                 (''a'', ValueAttribute ''number'' \<lparr>nullable = None, defaultValue = JUndefined\<rparr>)],
              optional = None\<rparr>, rules = JUndefined\<rparr>),
           (''apple'', \<lparr>schema = \<lparr>properties = [], optional = None\<rparr>, rules = JUndefined\<rparr>)])\<rparr>)
     = Inr (file_text (''{'' @ nl
            @ ''  '' @ sq @ ''zebra'' @ sq @ '': {'' @ nl
            @ ''    schema: S.Schema({'' @ nl
            @ ''      '' @ sq @ ''b'' @ sq @ '': S.String(),'' @ nl
            @ ''      '' @ sq @ ''a'' @ sq @ '': S.Number(),'' @ nl
            @ ''    }),'' @ nl
            @ ''  },'' @ nl
            @ ''  '' @ sq @ ''apple'' @ sq @ '': {'' @ nl
            @ ''    schema: S.Schema({'' @ nl
            @ ''    }),'' @ nl
            @ ''  },'' @ nl
            @ ''}''))"
proof -
  let ?s = "ValueAttribute ''string'' \<lparr>nullable = None, defaultValue = JUndefined\<rparr>"
  let ?n = "ValueAttribute ''number'' \<lparr>nullable = None, defaultValue = JUndefined\<rparr>"
  let ?decl = "[(''b'', ?s), (''a'', ?n)]"
  let ?cdecl = "[(''zebra'', \<lparr>schema = \<lparr>properties = ?decl, optional = None\<rparr>, rules = JUndefined\<rparr>),
              (''apple'', \<lparr>schema = \<lparr>properties = [], optional = None\<rparr>, rules = JUndefined\<rparr>)]"
  let ?j = "\<lparr>version = 1, collections = Some (enumeration_order ?cdecl)\<rparr>"
  let ?out1 = "''S.Record({'' @ sq @ ''b'' @ sq @ '': S.String(),'' @ nl
            @ sq @ ''a'' @ sq @ '': S.Number()})''"
  let ?out2 = "''    schema: S.Schema({'' @ nl
            @ ''      '' @ sq @ ''b'' @ sq @ '': S.String(),'' @ nl
            @ ''      '' @ sq @ ''a'' @ sq @ '': S.Number(),'' @ nl
            @ ''    }),'' @ nl"
  let ?out4 = "file_text (''{'' @ nl
            @ ''  '' @ sq @ ''zebra'' @ sq @ '': {'' @ nl
            @ ''    schema: S.Schema({'' @ nl
            @ ''      '' @ sq @ ''b'' @ sq @ '': S.String(),'' @ nl
            @ ''      '' @ sq @ ''a'' @ sq @ '': S.Number(),'' @ nl
            @ ''    }),'' @ nl
            @ ''  },'' @ nl
            @ ''  '' @ sq @ ''apple'' @ sq @ '': {'' @ nl
            @ ''    schema: S.Schema({'' @ nl
            @ ''    }),'' @ nl
            @ ''  },'' @ nl
            @ ''}'')"
  have nb: "\<not> is_array_index ''b''" and na: "\<not> is_array_index ''a''"
    and nz: "\<not> is_array_index ''zebra''" and np: "\<not> is_array_index ''apple''"
    by code_simp+
  note th = enumeration_order_in_output
         [where decl = ?decl and cdecl = ?cdecl and ropt = None and ?out1.0 = ?out1 and opt = None
            and indent = "''    ''" and ?out2.0 = ?out2 and b = "''b''" and x = ?s and a = "''a''"
            and y = ?n and ?out3.0 = ?out2 and j = ?j and ?out4.0 = ?out4]
  have d: "\<forall>p\<in>set ?decl. \<not> is_array_index (fst p)"
    using nb na by simp
  have c: "\<forall>p\<in>set ?cdecl. \<not> is_array_index (fst p)"
    using nz np by simp
  from th d have ed: "enumeration_order ?decl = ?decl"
    by blast
  from th c have ec: "enumeration_order ?cdecl = ?cdecl"
    by blast
  have e1: "schemaItemToString (RecordAttribute ?decl None) None = Inr ?out1"
    by code_simp
  have e2: "generateAttributesSection \<lparr>properties = ?decl, optional = None\<rparr> ''    '' = Inr ?out2"
    by code_simp
  have e4: "schemaFileContentFromJSON (Some \<lparr>version = 1, collections = Some ?cdecl\<rparr>) = Inr ?out4"
    by code_simp
  from ed ec e1 e2 e4 show ?thesis
    by simp
qed

text \<open>Properties declared in the order \<^verbatim>\<open>b\<close>, \<^verbatim>\<open>1\<close>: the object enumerates \<^verbatim>\<open>1\<close> first, and
  so does the text.\<close>

theorem declaration_order_counterexample:
  "enumeration_order
      [(''b'', ValueAttribute ''string'' \<lparr>nullable = None, defaultValue = JUndefined\<rparr>),
       (''1'', ValueAttribute ''number'' \<lparr>nullable = None, defaultValue = JUndefined\<rparr>)]
     = [(''1'', ValueAttribute ''number'' \<lparr>nullable = None, defaultValue = JUndefined\<rparr>),
        (''b'', ValueAttribute ''string'' \<lparr>nullable = None, defaultValue = JUndefined\<rparr>)]
   \<and> generateAttributesSection
       \<lparr>properties = enumeration_order
          [(''b'', ValueAttribute ''string'' \<lparr>nullable = None, defaultValue = JUndefined\<rparr>),
           (''1'', ValueAttribute ''number'' \<lparr>nullable = None, defaultValue = JUndefined\<rparr>)],
        optional = None\<rparr> []
     = Inr (''schema: S.Schema({'' @ nl
            @ ''  '' @ sq @ ''1'' @ sq @ '': S.Number(),'' @ nl
            @ ''  '' @ sq @ ''b'' @ sq @ '': S.String(),'' @ nl
            @ ''}),'' @ nl)"
  by code_simp

text \<open>
  Claim C9.  \<^verbatim>\<open>schemaFileContentFromSchema\<close> on a schema that \<^verbatim>\<open>schemaToJSON\<close> maps to
  \<^verbatim>\<open>undefined\<close>, or to a value without collections or with no collection, does not fail
  and returns the whole file: the header comment, the import line and the exported
  constant \<^verbatim>\<open>schema\<close>, whose object literal has no member.
\<close>

theorem schemaFileContentFromSchema_empty:
  assumes "schemaToJSON sch = None
           \<or> (\<exists>j. schemaToJSON sch = Some j \<and> (collections j = None \<or> collections j = Some []))"
  shows "schemaFileContentFromSchema schemaToJSON sch =
           Inr (''/**'' @ nl
                @ '' * This file is auto-generated by the Triplit CLI.'' @ nl
                @ '' */ '' @ nl
                @ nl
                @ ''import { Schema as S } from '' @ sq @ ''@triplit/db'' @ sq @ '';'' @ nl
                @ ''export const schema = {'' @ nl
                @ ''};'' @ nl)"
proof -
  have "collectionsDefinitionToFileContent [] indentation = Inr (''{'' @ nl @ ''}'')"
    by (simp add: collectionsDefinitionToFileContent_def slice_off2_def indentation_def)
  with assms show ?thesis
    by (auto simp: schemaFileContentFromSchema_def schemaFileContentFromJSON_text file_text_def)
qed

text \<open>A \<^verbatim>\<open>schemaToJSON\<close> that maps \<^verbatim>\<open>undefined\<close> to \<^verbatim>\<open>undefined\<close> and a list of collections
  to the JSON with these collections.\<close>

theorem schemaFileContentFromSchema_empty_witness:
  "schemaFileContentFromSchema
      (map_option (\<lambda>cs. \<lparr>version = 0, collections = Some cs\<rparr>)) None
     = Inr (''/**'' @ nl
                @ '' * This file is auto-generated by the Triplit CLI.'' @ nl
                @ '' */ '' @ nl
                @ nl
                @ ''import { Schema as S } from '' @ sq @ ''@triplit/db'' @ sq @ '';'' @ nl
                @ ''export const schema = {'' @ nl
                @ ''};'' @ nl)
   \<and> schemaFileContentFromSchema
      (map_option (\<lambda>cs. \<lparr>version = 0, collections = Some cs\<rparr>)) (Some [])
     = schemaFileContentFromSchema
      (map_option (\<lambda>cs. \<lparr>version = 0, collections = Some cs\<rparr>)) None"
  using schemaFileContentFromSchema_empty
          [of "map_option (\<lambda>cs. \<lparr>version = 0, collections = Some cs\<rparr>)" None]
        schemaFileContentFromSchema_empty
          [of "map_option (\<lambda>cs. \<lparr>version = 0, collections = Some cs\<rparr>)" "Some []"]
  by simp

section \<open>Errors\<close>

lemma schemaItemToString_flag_Inl:
  "schemaItemToString a None = Inl e \<Longrightarrow> schemaItemToString a flag = Inl e"
  by (subst schemaItemToString_flag) simp

text \<open>
  Claim C4.  An attribute whose type tag is none of \<^verbatim>\<open>string\<close>, \<^verbatim>\<open>boolean\<close>, \<^verbatim>\<open>number\<close>,
  \<^verbatim>\<open>date\<close>, \<^verbatim>\<open>set\<close>, \<^verbatim>\<open>record\<close>, \<^verbatim>\<open>query\<close> makes \<^verbatim>\<open>schemaItemToString\<close> throw
  \<^verbatim>\<open>Invalid type: ...\<close>.  An error of the encoder passes unchanged through an enclosing
  set, an enclosing record (when the entries before it are encoded), the attributes
  section of its collection and the module (when the collections before it are encoded);
  and whenever some property of some collection cannot be encoded, the module has an
  error as its result, and so no text.
\<close>

theorem unknown_kind_aborts_module:
  "(t \<notin> set [''string'', ''boolean'', ''number'', ''date'', ''set'', ''record'', ''query'']
      \<longrightarrow> schemaItemToString (ValueAttribute t opts) flag = Inl (Error (''Invalid type: '' @ t)))
   \<and> (schemaItemToString items None = Inl e
      \<longrightarrow> schemaItemToString (SetAttribute items sopts) flag = Inl e)
   \<and> (list_all2 (\<lambda>entry t. schemaItemToString (snd entry)
                               (Some (includes_key ropt (fst entry))) = Inr t) ps ts
        \<and> schemaItemToString a (Some (includes_key ropt key)) = Inl e
      \<longrightarrow> schemaItemToString (RecordAttribute (ps @ (key, a) # qs) ropt) flag = Inl e)
   \<and> (properties sch = ps @ (key, a) # qs
        \<and> list_all2 (\<lambda>entry t. schemaItemToString (snd entry)
                               (Some (includes_key (optional sch) (fst entry))) = Inr t) ps ts
        \<and> schemaItemToString a (Some (includes_key (optional sch) key)) = Inl e
      \<longrightarrow> generateAttributesSection sch indent = Inl e)
   \<and> (collections j = Some (cs @ (name, c) # ds)
        \<and> list_all2 (\<lambda>entry t. generateAttributesSection (schema (snd entry))
                                 (indentation @ indentation) = Inr t) cs us
        \<and> generateAttributesSection (schema c) (indentation @ indentation) = Inl e
      \<longrightarrow> schemaFileContentFromJSON (Some j) = Inl e)
   \<and> (collections j = Some cs' \<and> entry \<in> set cs' \<and> p \<in> set (properties (schema (snd entry)))
        \<and> schemaItemToString (snd p)
            (Some (includes_key (optional (schema (snd entry))) (fst p))) = Inl e
      \<longrightarrow> (\<exists>e'. schemaFileContentFromJSON (Some j) = Inl e'))"
proof (intro conjI impI)
  assume "t \<notin> set [''string'', ''boolean'', ''number'', ''date'', ''set'', ''record'', ''query'']"
  then have "schemaItemToString (ValueAttribute t opts) None = Inl (Error (''Invalid type: '' @ t))"
    by (simp add: schemaItemToString_Value)
  then show "schemaItemToString (ValueAttribute t opts) flag = Inl (Error (''Invalid type: '' @ t))"
    by (rule schemaItemToString_flag_Inl)
next
  assume "schemaItemToString items None = Inl e"
  then have "schemaItemToString (SetAttribute items sopts) None = Inl e"
    by (simp add: schemaItemToString_Set)
  then show "schemaItemToString (SetAttribute items sopts) flag = Inl e"
    by (rule schemaItemToString_flag_Inl)
next
  assume "list_all2 (\<lambda>entry t. schemaItemToString (snd entry)
                               (Some (includes_key ropt (fst entry))) = Inr t) ps ts
        \<and> schemaItemToString a (Some (includes_key ropt key)) = Inl e"
  then have "mapE (\<lambda>entry. schemaItemToString (snd entry) (Some (includes_key ropt (fst entry))))
               (ps @ (key, a) # qs) = Inl e"
    by (intro mapE_first_error [where ys = ts]) simp_all
  then have "schemaItemToString (RecordAttribute (ps @ (key, a) # qs) ropt) None = Inl e"
    by (simp add: schemaItemToString_Record)
  then show "schemaItemToString (RecordAttribute (ps @ (key, a) # qs) ropt) flag = Inl e"
    by (rule schemaItemToString_flag_Inl)
next
  assume h: "properties sch = ps @ (key, a) # qs
        \<and> list_all2 (\<lambda>entry t. schemaItemToString (snd entry)
                               (Some (includes_key (optional sch) (fst entry))) = Inr t) ps ts
        \<and> schemaItemToString a (Some (includes_key (optional sch) key)) = Inl e"
  then have "mapE (\<lambda>entry. schemaItemToString (snd entry)
                             (Some (includes_key (optional sch) (fst entry))))
               (ps @ (key, a) # qs) = Inl e"
    by (intro mapE_first_error [where ys = ts]) simp_all
  with h show "generateAttributesSection sch indent = Inl e"
    by (simp add: generateAttributesSection_mapE)
next
  assume h: "collections j = Some (cs @ (name, c) # ds)
        \<and> list_all2 (\<lambda>entry t. generateAttributesSection (schema (snd entry))
                                 (indentation @ indentation) = Inr t) cs us
        \<and> generateAttributesSection (schema c) (indentation @ indentation) = Inl e"
  then have "mapE (\<lambda>entry. generateAttributesSection (schema (snd entry)) (indentation @ indentation))
               (cs @ (name, c) # ds) = Inl e"
    by (intro mapE_first_error [where ys = us]) simp_all
  with h show "schemaFileContentFromJSON (Some j) = Inl e"
    by (simp add: schemaFileContentFromJSON_text collectionsDefinitionToFileContent_mapE)
next
  assume h: "collections j = Some cs' \<and> entry \<in> set cs'
        \<and> p \<in> set (properties (schema (snd entry)))
        \<and> schemaItemToString (snd p)
            (Some (includes_key (optional (schema (snd entry))) (fst p))) = Inl e"
  then have "\<exists>e'. mapE (\<lambda>q. schemaItemToString (snd q)
                             (Some (includes_key (optional (schema (snd entry))) (fst q))))
               (properties (schema (snd entry))) = Inl e'"
    by (intro mapE_some_error [where x = p and e = e]) simp_all
  then obtain e1 where
    "generateAttributesSection (schema (snd entry)) (indentation @ indentation) = Inl e1"
    by (auto simp: generateAttributesSection_mapE)
  with h have "\<exists>e'. mapE (\<lambda>en. generateAttributesSection (schema (snd en))
                                (indentation @ indentation)) cs' = Inl e'"
    by (intro mapE_some_error [where x = entry and e = e1]) simp_all
  with h show "\<exists>e'. schemaFileContentFromJSON (Some j) = Inl e'"
    by (auto simp: schemaFileContentFromJSON_text collectionsDefinitionToFileContent_mapE)
qed

text \<open>A module whose second collection has a property of the unknown type \<^verbatim>\<open>uuid\<close>.\<close>

theorem unknown_kind_aborts_module_witness:
  "schemaItemToString (ValueAttribute ''uuid'' \<lparr>nullable = None, defaultValue = JUndefined\<rparr>) None
     = Inl (Error ''Invalid type: uuid'')
   \<and> schemaItemToString
       (SetAttribute (ValueAttribute ''uuid'' \<lparr>nullable = None, defaultValue = JUndefined\<rparr>)
          \<lparr>nullable = None, defaultValue = JUndefined\<rparr>) None
     = Inl (Error ''Invalid type: uuid'')
   \<and> schemaItemToString
       (RecordAttribute
          [(''id'', ValueAttribute ''string'' \<lparr>nullable = None, defaultValue = JUndefined\<rparr>),
           (''tag'', ValueAttribute ''uuid'' \<lparr>nullable = None, defaultValue = JUndefined\<rparr>)] None)
       None
     = Inl (Error ''Invalid type: uuid'')
   \<and> schemaFileContentFromJSON
       (Some \<lparr>version = 1, collections = Some
          [(''users'', \<lparr>schema = \<lparr>properties =
                [(''id'', ValueAttribute ''string'' \<lparr>nullable = None, defaultValue = JUndefined\<rparr>)],
              optional = None\<rparr>, rules = JUndefined\<rparr>),
           (''posts'', \<lparr>schema = \<lparr>properties =
                [(''id'', ValueAttribute ''string'' \<lparr>nullable = None, defaultValue = JUndefined\<rparr>),
                 (''tag'', ValueAttribute ''uuid'' \<lparr>nullable = None, defaultValue = JUndefined\<rparr>)],
              optional = None\<rparr>, rules = JUndefined\<rparr>)]\<rparr>)
     = Inl (Error ''Invalid type: uuid'')"
proof -
  let ?o = "\<lparr>nullable = None, defaultValue = JUndefined\<rparr>"
  let ?s = "ValueAttribute ''string'' ?o"
  let ?u = "ValueAttribute ''uuid'' ?o"
  let ?e = "Error ''Invalid type: uuid''"
  let ?ps = "[(''id'', ?s)]"
  let ?sch = "\<lparr>properties = ?ps @ (''tag'', ?u) # [], optional = None\<rparr>"
  let ?users = "\<lparr>schema = \<lparr>properties = ?ps, optional = None\<rparr>, rules = JUndefined\<rparr>"
  let ?posts = "\<lparr>schema = ?sch, rules = JUndefined\<rparr>"
  let ?cs = "[(''users'', ?users)]"
  let ?j = "\<lparr>version = 1, collections = Some (?cs @ (''posts'', ?posts) # [])\<rparr>"
  let ?us = "[''    schema: S.Schema({'' @ nl @ ''      '' @ sq @ ''id'' @ sq @ '': S.String(),'' @ nl
              @ ''    }),'' @ nl]"
  note th = unknown_kind_aborts_module
    [where t = "''uuid''" and opts = ?o and flag = None and items = ?u and e = ?e and sopts = ?o
       and ropt = None and ps = ?ps and ts = "[''S.String()'']" and a = ?u and key = "''tag''"
       and qs = "[]" and sch = ?sch and indent = "indentation @ indentation" and j = ?j
       and cs = ?cs and name = "''posts''" and c = ?posts and ds = "[]" and us = ?us
       and cs' = "?cs @ (''posts'', ?posts) # []" and entry = "(''posts'', ?posts)"
       and p = "(''tag'', ?u)"]
  have h1: "''uuid'' \<notin> set [''string'', ''boolean'', ''number'', ''date'', ''set'', ''record'', ''query'']"
    by simp
  from th h1 have c1: "schemaItemToString ?u None = Inl ?e"
    by simp
  from th c1 have c2: "schemaItemToString (SetAttribute ?u ?o) None = Inl ?e"
    by blast
  have s1: "schemaItemToString ?s (Some (includes_key None ''id'')) = Inr ''S.String()''"
    by code_simp
  have u1: "schemaItemToString ?u (Some (includes_key None ''tag'')) = Inl ?e"
    by code_simp
  have h3: "list_all2 (\<lambda>entry t. schemaItemToString (snd entry)
                               (Some (includes_key None (fst entry))) = Inr t) ?ps [''S.String()'']
        \<and> schemaItemToString ?u (Some (includes_key None ''tag'')) = Inl ?e"
    using s1 u1 by simp
  from th h3 have c3: "schemaItemToString (RecordAttribute (?ps @ (''tag'', ?u) # []) None) None = Inl ?e"
    by blast
  have h4: "properties ?sch = ?ps @ (''tag'', ?u) # []
        \<and> list_all2 (\<lambda>entry t. schemaItemToString (snd entry)
                               (Some (includes_key (optional ?sch) (fst entry))) = Inr t)
             ?ps [''S.String()'']
        \<and> schemaItemToString ?u (Some (includes_key (optional ?sch) ''tag'')) = Inl ?e"
    using s1 u1 by simp
  from th h4 have c4: "generateAttributesSection ?sch (indentation @ indentation) = Inl ?e"
    by blast
  have a1: "generateAttributesSection (schema ?users) (indentation @ indentation) = Inr (hd ?us)"
    by code_simp
  have h5: "collections ?j = Some (?cs @ (''posts'', ?posts) # [])
        \<and> list_all2 (\<lambda>entry t. generateAttributesSection (schema (snd entry))
                                 (indentation @ indentation) = Inr t) ?cs ?us
        \<and> generateAttributesSection (schema ?posts) (indentation @ indentation) = Inl ?e"
    using a1 c4 by simp
  from th h5 have c5: "schemaFileContentFromJSON (Some ?j) = Inl ?e"
    by blast
  from c1 c2 c3 c5 show ?thesis
    by simp
qed

end
